theory Spec2Isabelle
  imports Complex_Main
begin

section \<open>Elevation profiles over tiled DEM rasters: the sampling pipeline\<close>

text \<open>
  The development embeds \<^verbatim>\<open>src/server/elevation_profile.py\<close>.

  Numbers. A finite \<^verbatim>\<open>float64\<close> is a \<^typ>\<open>real\<close> and the arithmetic is exact:
  rounding error, overflow to infinity and the infinities themselves are not part of the
  model. Coordinates and distances are finite reals. An elevation can be NaN (no data), so
  raster cells and sampled values have the type \<open>fval\<close>, a real or NaN. Python's \<^verbatim>\<open>int\<close>
  and NumPy's \<^verbatim>\<open>int64\<close> indices are \<^typ>\<open>int\<close>.

  Errors. Every exception the modelled code can raise is a value of \<open>error\<close>, and a
  function that can raise returns \<open>error + 'a\<close> with \<open>Inl\<close> for the exception.
\<close>

subsection \<open>Values and errors\<close>

datatype fval = NaN | Val real

datatype error =
    ValueError string
  | IndexError
  | CRSError
  | ProjError
  | RasterioIOError
  | TransformNotInvertibleError
  | ZeroDivisionError

fun isnan :: "fval \<Rightarrow> bool" where
  "isnan NaN = True"
| "isnan (Val v) = False"

text \<open>A finite weight times a cell value, and the sum of two values: NaN in, NaN out.\<close>

fun fmul :: "real \<Rightarrow> fval \<Rightarrow> fval" where
  "fmul k NaN = NaN"
| "fmul k (Val v) = Val (k * v)"

fun fadd :: "fval \<Rightarrow> fval \<Rightarrow> fval" where
  "fadd (Val u) (Val v) = Val (u + v)"
| "fadd u v = NaN"

text \<open>
  \<^verbatim>\<open>np.rint\<close> rounds to the nearest integer and a tie to the even neighbour
  (\<^verbatim>\<open>np.rint(0.5) = 0\<close>, \<^verbatim>\<open>np.rint(1.5) = 2\<close>, \<^verbatim>\<open>np.rint(-0.5) = -0\<close>).
\<close>

definition np_rint :: "real \<Rightarrow> int" where
  "np_rint x =
     (let fl = \<lfloor>x\<rfloor>; fr = x - of_int fl
      in if fr < 1 / 2 then fl
         else if 1 / 2 < fr then fl + 1
         else if even fl then fl else fl + 1)"

text \<open>Python's \<^verbatim>\<open>int(x)\<close> on a finite float truncates toward zero.\<close>

definition py_int :: "real \<Rightarrow> int" where
  "py_int x = (if 0 \<le> x then \<lfloor>x\<rfloor> else \<lceil>x\<rceil>)"

text \<open>\<^verbatim>\<open>np.hypot\<close> of two finite floats.\<close>

definition hypot :: "real \<Rightarrow> real \<Rightarrow> real" where
  "hypot u v = sqrt (u\<^sup>2 + v\<^sup>2)"

subsection \<open>NumPy broadcasting of two one-dimensional arrays\<close>

text \<open>
  An elementwise operation on arrays of lengths \<open>m\<close> and \<open>n\<close> works when \<open>m = n\<close> or one of
  them is \<open>1\<close> (that single element is repeated); any other pair of lengths raises
  \<^verbatim>\<open>ValueError\<close>.
\<close>

definition broadcast2 :: "('a \<Rightarrow> 'b \<Rightarrow> 'c) \<Rightarrow> 'a list \<Rightarrow> 'b list \<Rightarrow> error + 'c list" where
  "broadcast2 g xs ys =
     (if length xs = length ys then Inr (map2 g xs ys)
      else if length xs = 1 then Inr (map (\<lambda>y. g (hd xs) y) ys)
      else if length ys = 1 then Inr (map (\<lambda>x. g x (hd ys)) xs)
      else Inl (ValueError ''operands could not be broadcast together''))"

subsection \<open>The affine transform of a raster\<close>

text \<open>
  \<^verbatim>\<open>Affine(a, b, c, d, e, f)\<close> maps pixel \<open>(col, row)\<close> to world
  \<open>(a * col + b * row + c, d * col + e * row + f)\<close>.
\<close>

record affine =
  aff_a :: real
  aff_b :: real
  aff_c :: real
  aff_d :: real
  aff_e :: real
  aff_f :: real

text \<open>
  Modelled from the spec: the inverse affine transform \<^verbatim>\<open>~transform\<close> belongs to the
  \<^verbatim>\<open>affine\<close> package, which is not under \<^verbatim>\<open>src/\<close>. It is the inverse of the matrix, and a
  transform with determinant zero has none (the package raises).
\<close>

definition affine_invert :: "affine \<Rightarrow> error + affine" where
  "affine_invert t =
     (let det = aff_a t * aff_e t - aff_b t * aff_d t
      in if det = 0 then Inl TransformNotInvertibleError
         else
           let idet = 1 / det;
               ra = aff_e t * idet;
               rb = - aff_b t * idet;
               rd = - aff_d t * idet;
               re = aff_a t * idet
           in Inr \<lparr>aff_a = ra, aff_b = rb, aff_c = - aff_c t * ra - aff_f t * rb,
                   aff_d = rd, aff_e = re, aff_f = - aff_c t * rd - aff_f t * re\<rparr>)"

subsection \<open>Raster Sampler: \<^verbatim>\<open>_sample_raster_at_points\<close>\<close>

text \<open>
  A band is a two-dimensional array, a list of rows of equal length. \<^verbatim>\<open>band.shape\<close> is
  \<open>(h, w)\<close>.
\<close>

type_synonym band = "fval list list"

definition band_h :: "band \<Rightarrow> int" where
  "band_h band = int (length band)"

definition band_w :: "band \<Rightarrow> int" where
  "band_w band = (case band of [] \<Rightarrow> 0 | r # _ \<Rightarrow> int (length r))"

text \<open>\<^verbatim>\<open>band[i, j]\<close>, read only where \<open>0 \<le> i < h\<close> and \<open>0 \<le> j < w\<close>.\<close>

definition cell :: "band \<Rightarrow> int \<Rightarrow> int \<Rightarrow> fval" where
  "cell band i j = band ! nat i ! nat j"

text \<open>
  Lines 137-138: the fractional pixel position \<open>(col, row)\<close> of a world point, from the
  inverse transform.
\<close>

definition frac_col :: "affine \<Rightarrow> real \<Rightarrow> real \<Rightarrow> real" where
  "frac_col inv_t x y = aff_a inv_t * x + aff_b inv_t * y + aff_c inv_t"

definition frac_row :: "affine \<Rightarrow> real \<Rightarrow> real \<Rightarrow> real" where
  "frac_row inv_t x y = aff_d inv_t * x + aff_e inv_t * y + aff_f inv_t"

text \<open>
  Lines 140-146, one element of the vectorised code: round row and column, look the cell
  up when the rounded indices are inside, NaN otherwise.
\<close>

definition nearest_inside :: "band \<Rightarrow> real \<Rightarrow> real \<Rightarrow> bool" where
  "nearest_inside band row col =
     (let j = np_rint col; i = np_rint row
      in 0 \<le> i \<and> i < band_h band \<and> 0 \<le> j \<and> j < band_w band)"

definition sample_nearest :: "band \<Rightarrow> real \<Rightarrow> real \<Rightarrow> fval" where
  "sample_nearest band row col =
     (if nearest_inside band row col then cell band (np_rint row) (np_rint col) else NaN)"

text \<open>Lines 148-184, one element of the vectorised code.\<close>

definition bilinear_inside :: "band \<Rightarrow> real \<Rightarrow> real \<Rightarrow> bool" where
  "bilinear_inside band row col =
     (let i0 = \<lfloor>row\<rfloor>; j0 = \<lfloor>col\<rfloor>; i1 = i0 + 1; j1 = j0 + 1
      in 0 \<le> i0 \<and> i1 < band_h band \<and> 0 \<le> j0 \<and> j1 < band_w band)"

definition sample_bilinear :: "band \<Rightarrow> real \<Rightarrow> real \<Rightarrow> fval" where
  "sample_bilinear band row col =
     (let i0 = \<lfloor>row\<rfloor>; j0 = \<lfloor>col\<rfloor>; i1 = i0 + 1; j1 = j0 + 1;
          di = row - of_int i0; dj = col - of_int j0
      in if \<not> bilinear_inside band row col then NaN
         else
           let v00 = cell band i0 j0; v10 = cell band i0 j1;
               v01 = cell band i1 j0; v11 = cell band i1 j1;
               neighbor_nan = (isnan v00 \<or> isnan v10 \<or> isnan v01 \<or> isnan v11);
               w00 = (1 - dj) * (1 - di);
               w10 = dj * (1 - di);
               w01 = (1 - dj) * di;
               w11 = dj * di;
               interp = fadd (fadd (fadd (fmul w00 v00) (fmul w10 v10)) (fmul w01 v01))
                             (fmul w11 v11)
           in if neighbor_nan then NaN else interp)"

text \<open>
  The whole function. The coordinates are broadcast against each other (lines 137-138);
  \<^verbatim>\<open>vals\<close> has the shape of \<^verbatim>\<open>xs\<close>, so the masked assignment \<^verbatim>\<open>vals[inside] = ...\<close>
  raises \<^verbatim>\<open>IndexError\<close> when the broadcast made the mask longer or shorter than
  \<^verbatim>\<open>xs\<close>. The bilinear branch returns early, before that assignment, when no point is
  inside (line 159). Any method other than \<^verbatim>\<open>"nearest"\<close> is sampled bilinearly: the method
  is validated by the caller only.
\<close>

definition sample_raster_at_points ::
  "band \<Rightarrow> affine \<Rightarrow> real list \<Rightarrow> real list \<Rightarrow> string \<Rightarrow> error + fval list" where
  "sample_raster_at_points band transform xs ys method =
     (case affine_invert transform of
        Inl err \<Rightarrow> Inl err
      | Inr inv_t \<Rightarrow>
          (case broadcast2 (\<lambda>x y. (frac_row inv_t x y, frac_col inv_t x y)) xs ys of
             Inl err \<Rightarrow> Inl err
           | Inr rcs \<Rightarrow>
               if method = ''nearest'' then
                 (if length rcs = length xs
                  then Inr (map (\<lambda>(row, col). sample_nearest band row col) rcs)
                  else Inl IndexError)
               else if \<not> list_ex (\<lambda>(row, col). bilinear_inside band row col) rcs
                 then Inr (replicate (length xs) NaN)
               else if length rcs = length xs
                 then Inr (map (\<lambda>(row, col). sample_bilinear band row col) rcs)
               else Inl IndexError))"

text \<open>What the vectorised code computes for one point, by method.\<close>

definition sample_at :: "band \<Rightarrow> string \<Rightarrow> real \<Rightarrow> real \<Rightarrow> fval" where
  "sample_at band method row col =
     (if method = ''nearest'' then sample_nearest band row col
      else sample_bilinear band row col)"

subsection \<open>Coordinate reference systems and the collaborators\<close>

text \<open>
  Of a resolved \<^verbatim>\<open>pyproj.CRS\<close> the code reads \<^verbatim>\<open>is_projected\<close> only; the identifier tells
  two systems apart.
\<close>

record crs =
  crs_id :: string
  is_projected :: bool

text \<open>
  What an opened tile offers (\<^verbatim>\<open>rasterio\<close>'s dataset): its CRS if it has one, the affine
  transform, the nodata value if declared, and the two reads, which may fail to decode.
\<close>

record dataset =
  ds_crs :: "string option"
  ds_transform :: affine
  ds_nodata :: "fval option"
  ds_read :: "error + fval list list"
  ds_read_masks :: "error + nat list list"

text \<open>
  The collaborators are parameters of the model, since \<^verbatim>\<open>pyproj\<close>, \<^verbatim>\<open>rasterio\<close> and the tile
  store are outside the repository:
  \<^item> \<open>to_25832\<close>: the transformer of line 25, from EPSG:4326 to EPSG:25832;
  \<^item> \<open>rasterio_open\<close>: opening the tile file of an integer tile pair (line 40-41);
  \<^item> \<open>from_user_input\<close>: \<^verbatim>\<open>CRS.from_user_input\<close>, which raises on an identifier it cannot
    resolve;
  \<^item> \<open>wgs84\<close>: \<^verbatim>\<open>CRS.from_epsg(4326)\<close>;
  \<^item> \<open>from_crs\<close>: \<^verbatim>\<open>Transformer.from_crs(c1, c2, always_xy=True)\<close>, which may raise, and whose
    result transforms a point;
  \<^item> \<open>geod_inv\<close>: the distance component of \<^verbatim>\<open>Geod(ellps="WGS84").inv(lon0, lat0, lon1, lat1)\<close>.
\<close>

record env =
  to_25832 :: "real \<times> real \<Rightarrow> real \<times> real"
  rasterio_open :: "int \<times> int \<Rightarrow> error + dataset"
  from_user_input :: "string \<Rightarrow> error + crs"
  wgs84 :: crs
  from_crs :: "crs \<Rightarrow> crs \<Rightarrow> error + (real \<times> real \<Rightarrow> real \<times> real)"
  geod_inv :: "real \<times> real \<Rightarrow> real \<times> real \<Rightarrow> real"

text \<open>
  A transformer applied to two coordinate arrays: one point per index; arrays of different
  lengths are refused.
\<close>

definition transform_arrays ::
  "(real \<times> real \<Rightarrow> real \<times> real) \<Rightarrow> real list \<Rightarrow> real list \<Rightarrow> error + (real \<times> real) list" where
  "transform_arrays tr xs ys =
     (if length xs = length ys then Inr (map tr (zip xs ys)) else Inl ProjError)"

subsection \<open>Distance Accumulator: \<^verbatim>\<open>_compute_cumulative_distances\<close>\<close>

text \<open>\<^verbatim>\<open>np.diff\<close>: the differences of neighbours, one fewer than the elements.\<close>

definition np_diff :: "real list \<Rightarrow> real list" where
  "np_diff xs = map2 (\<lambda>u v. v - u) xs (tl xs)"

text \<open>\<^verbatim>\<open>np.cumsum\<close>: the running sums.\<close>

fun cumsum_from :: "real \<Rightarrow> real list \<Rightarrow> real list" where
  "cumsum_from acc [] = []"
| "cumsum_from acc (x # xs) = (acc + x) # cumsum_from (acc + x) xs"

definition np_cumsum :: "real list \<Rightarrow> real list" where
  "np_cumsum xs = cumsum_from 0 xs"

definition compute_cumulative_distances ::
  "env \<Rightarrow> crs \<Rightarrow> real list \<Rightarrow> real list \<Rightarrow> error + real list" where
  "compute_cumulative_distances ev raster_crs xs ys =
     (if is_projected raster_crs then
        (case broadcast2 hypot (np_diff xs) (np_diff ys) of
           Inl err \<Rightarrow> Inl err
         | Inr seg \<Rightarrow> Inr (0 # np_cumsum seg))
      else
        (case from_crs ev raster_crs (wgs84 ev) of
           Inl err \<Rightarrow> Inl err
         | Inr to_wgs84 \<Rightarrow>
             (case transform_arrays to_wgs84 xs ys of
                Inl err \<Rightarrow> Inl err
              | Inr lonlats \<Rightarrow>
                  let seg = map2 (geod_inv ev) (butlast lonlats) (tl lonlats)
                  in Inr (0 # np_cumsum seg))))"

subsection \<open>Sample Planner: \<^verbatim>\<open>_samples_from_spacing\<close>\<close>

definition samples_from_spacing ::
  "env \<Rightarrow> crs \<Rightarrow> real \<times> real \<Rightarrow> real \<times> real \<Rightarrow> real \<Rightarrow> error + int" where
  "samples_from_spacing ev raster_crs p0 p1 spacing_m =
     (let x0 = fst p0; y0 = snd p0; x1 = fst p1; y1 = snd p1;
          len_or_err =
            (if is_projected raster_crs then Inr (hypot (x1 - x0) (y1 - y0))
             else
               (case from_crs ev raster_crs (wgs84 ev) of
                  Inl err \<Rightarrow> Inl err
                | Inr to_wgs84 \<Rightarrow> Inr (geod_inv ev (to_wgs84 (x0, y0)) (to_wgs84 (x1, y1)))))
      in case len_or_err of
           Inl err \<Rightarrow> Inl err
         | Inr len \<Rightarrow>
             if len \<le> 0 then Inr 2
             else if spacing_m = 0 then Inl ZeroDivisionError
             else Inr (max 2 (\<lfloor>len / spacing_m\<rfloor> + 1)))"

subsection \<open>Profile Assembler: \<^verbatim>\<open>get_elevation_profile\<close>\<close>

text \<open>
  Lines 25-36, the candidate tiles. The list holds the start and the end point in tile
  coordinates (floats), then the integer pairs of the two nested \<^verbatim>\<open>range\<close> loops;
  \<^verbatim>\<open>range(a, b + 1)\<close> is \<open>[a..b]\<close>, empty when \<open>b < a\<close>.
\<close>

definition tiffs_to_check :: "env \<Rightarrow> real \<times> real \<Rightarrow> real \<times> real \<Rightarrow> (real \<times> real) list" where
  "tiffs_to_check ev start_xy end_xy =
     (let s = to_25832 ev start_xy; e = to_25832 ev end_xy;
          start_file = (fst s / 1000, snd s / 1000);
          end_file = (fst e / 1000, snd e / 1000)
      in [start_file, end_file] @
         concat (map (\<lambda>x. map (\<lambda>y. (of_int x, of_int y))
                               [py_int (snd start_file)..py_int (snd end_file)])
                     [py_int (fst start_file)..py_int (fst end_file)]))"

text \<open>
  Line 41: the file opened for an entry is named by \<^verbatim>\<open>int(tiff[0])\<close> and \<^verbatim>\<open>int(tiff[1])\<close>;
  this integer pair is the tile identifier.
\<close>

definition tile_id :: "real \<times> real \<Rightarrow> int \<times> int" where
  "tile_id tiff = (py_int (fst tiff), py_int (snd tiff))"

text \<open>
  \<^verbatim>\<open>np.linspace(0.0, 1.0, N)\<close>: \<open>N\<close> evenly spaced parameters, both ends included; a single
  sample is the start alone.
\<close>

definition linspace01 :: "int \<Rightarrow> real list" where
  "linspace01 n = map (\<lambda>i. if n = 1 then 0 else real i / real_of_int (n - 1)) [0..<nat n]"

text \<open>
  Lines 52-55, the sample count. \<^verbatim>\<open>num_samples or 200\<close> is 200 when \<^verbatim>\<open>num_samples\<close> is
  \<^verbatim>\<open>None\<close> or \<open>0\<close>.
\<close>

definition sample_count ::
  "env \<Rightarrow> crs \<Rightarrow> real \<times> real \<Rightarrow> real \<times> real \<Rightarrow> real option \<Rightarrow> int option \<Rightarrow> error + int" where
  "sample_count ev raster_crs p0 p1 spacing_m num_samples =
     (case spacing_m of
        Some sp \<Rightarrow>
          if 0 < sp then samples_from_spacing ev raster_crs p0 p1 sp
          else Inr (max 2 (case num_samples of None \<Rightarrow> 200 | Some n \<Rightarrow> if n = 0 then 200 else n))
      | None \<Rightarrow>
          Inr (max 2 (case num_samples of None \<Rightarrow> 200 | Some n \<Rightarrow> if n = 0 then 200 else n)))"

text \<open>
  Lines 63-68: the nodata value and the cells outside the mask become NaN. The mask has the
  shape of the band (both are reads of band 1 of the same dataset).
\<close>

definition apply_nodata :: "fval option \<Rightarrow> fval list list \<Rightarrow> band" where
  "apply_nodata nodata raw =
     (case nodata of
        None \<Rightarrow> raw
      | Some nd \<Rightarrow> map (map (\<lambda>v. if \<not> isnan v \<and> v = nd then NaN else v)) raw)"

definition apply_mask :: "nat list list \<Rightarrow> fval list list \<Rightarrow> band" where
  "apply_mask masks raw = map2 (map2 (\<lambda>m v. if 0 < m then v else NaN)) masks raw"

text \<open>
  Lines 42-87, the body of the \<^verbatim>\<open>with\<close> block for one opened tile: the result is the pair
  of \<^verbatim>\<open>distance_m\<close> and \<^verbatim>\<open>elevation\<close>, or the exception that left the block.
\<close>

definition process_tile ::
  "env \<Rightarrow> real \<times> real \<Rightarrow> real \<times> real \<Rightarrow> string \<Rightarrow> real option \<Rightarrow> int option \<Rightarrow> string \<Rightarrow>
   dataset \<Rightarrow> error + (real list \<times> fval list)" where
  "process_tile ev start_xy end_xy input_crs spacing_m num_samples method ds =
     (case (case ds_crs ds of None \<Rightarrow> Inr (wgs84 ev) | Some c \<Rightarrow> from_user_input ev c) of
        Inl err \<Rightarrow> Inl err
      | Inr raster_crs \<Rightarrow>
     (case from_user_input ev input_crs of
        Inl err \<Rightarrow> Inl err
      | Inr in_crs \<Rightarrow>
     (case from_crs ev in_crs raster_crs of
        Inl err \<Rightarrow> Inl err
      | Inr to_raster \<Rightarrow>
          let p0 = to_raster start_xy; p1 = to_raster end_xy;
              x0 = fst p0; y0 = snd p0; x1 = fst p1; y1 = snd p1
          in
     (case sample_count ev raster_crs (x0, y0) (x1, y1) spacing_m num_samples of
        Inl err \<Rightarrow> Inl err
      | Inr N \<Rightarrow>
          let t = linspace01 N;
              xs = map (\<lambda>ti. x0 + (x1 - x0) * ti) t;
              ys = map (\<lambda>ti. y0 + (y1 - y0) * ti) t
          in
     (case ds_read ds of
        Inl err \<Rightarrow> Inl err
      | Inr raw \<Rightarrow>
     (case ds_read_masks ds of
        Inl err \<Rightarrow> Inl err
      | Inr masks \<Rightarrow>
          let band = apply_mask masks (apply_nodata (ds_nodata ds) raw)
          in
     (case sample_raster_at_points band (ds_transform ds) xs ys method of
        Inl err \<Rightarrow> Inl err
      | Inr vals \<Rightarrow>
     (case compute_cumulative_distances ev raster_crs xs ys of
        Inl err \<Rightarrow> Inl err
      | Inr dist_m \<Rightarrow> Inr (dist_m, vals)))))))))"

text \<open>
  What the call does to the outside, in order: a tile file it tries to open, and a line it
  prints for a tile whose block raised.
\<close>

datatype event = OpenTile "int \<times> int" | PrintError "real \<times> real" error

text \<open>
  Lines 38-89, one iteration: open the tile and run the block; any exception, from the open
  or from the block, is printed and the loop goes on (\<^verbatim>\<open>except Exception\<close>).
\<close>

definition try_tile ::
  "env \<Rightarrow> real \<times> real \<Rightarrow> real \<times> real \<Rightarrow> string \<Rightarrow> real option \<Rightarrow> int option \<Rightarrow> string \<Rightarrow>
   real \<times> real \<Rightarrow> error + (real list \<times> fval list)" where
  "try_tile ev start_xy end_xy input_crs spacing_m num_samples method tiff =
     (case rasterio_open ev (tile_id tiff) of
        Inl err \<Rightarrow> Inl err
      | Inr ds \<Rightarrow> process_tile ev start_xy end_xy input_crs spacing_m num_samples method ds)"

fun tile_loop ::
  "env \<Rightarrow> real \<times> real \<Rightarrow> real \<times> real \<Rightarrow> string \<Rightarrow> real option \<Rightarrow> int option \<Rightarrow> string \<Rightarrow>
   (real \<times> real) list \<Rightarrow> (real list \<times> fval list) list \<times> event list \<Rightarrow>
   (real list \<times> fval list) list \<times> event list" where
  "tile_loop ev start_xy end_xy input_crs spacing_m num_samples method [] st = st"
| "tile_loop ev start_xy end_xy input_crs spacing_m num_samples method (tiff # rest)
     (results_array, trace) =
     (case try_tile ev start_xy end_xy input_crs spacing_m num_samples method tiff of
        Inl err \<Rightarrow>
          tile_loop ev start_xy end_xy input_crs spacing_m num_samples method rest
            (results_array, trace @ [OpenTile (tile_id tiff), PrintError tiff err])
      | Inr result \<Rightarrow>
          tile_loop ev start_xy end_xy input_crs spacing_m num_samples method rest
            (results_array @ [result], trace @ [OpenTile (tile_id tiff)]))"

text \<open>
  Lines 91-96: the samples of every tile in order, without those whose elevation is NaN.
  \<^verbatim>\<open>result["elevation"][i]\<close> raises \<^verbatim>\<open>IndexError\<close> if there are fewer elevations than
  distances.
\<close>

fun tile_samples :: "real list \<Rightarrow> fval list \<Rightarrow> error + (real \<times> real) list" where
  "tile_samples [] elevation = Inr []"
| "tile_samples (dm # distance_m) [] = Inl IndexError"
| "tile_samples (dm # distance_m) (el # elevation) =
     (case tile_samples distance_m elevation of
        Inl err \<Rightarrow> Inl err
      | Inr rest \<Rightarrow> (case el of NaN \<Rightarrow> Inr rest | Val v \<Rightarrow> Inr ((dm, v) # rest)))"

fun concat_result :: "(real list \<times> fval list) list \<Rightarrow> error + (real \<times> real) list" where
  "concat_result [] = Inr []"
| "concat_result (result # results_array) =
     (case tile_samples (fst result) (snd result) of
        Inl err \<Rightarrow> Inl err
      | Inr here \<Rightarrow>
          (case concat_result results_array of
             Inl err \<Rightarrow> Inl err
           | Inr rest \<Rightarrow> Inr (here @ rest)))"

definition method_message :: string where
  "method_message = ''method must be 'nearest' or 'bilinear'' @ [CHR 0x27]"

text \<open>
  The whole call: the outcome (the profile, or the exception that reached the caller) and
  the trace of what it did to the outside.
\<close>

definition get_elevation_profile ::
  "env \<Rightarrow> real \<times> real \<Rightarrow> real \<times> real \<Rightarrow> string \<Rightarrow> real option \<Rightarrow> int option \<Rightarrow> string \<Rightarrow>
   (error + (real \<times> real) list) \<times> event list" where
  "get_elevation_profile ev start_xy end_xy input_crs spacing_m num_samples method =
     (if (case num_samples of None \<Rightarrow> False | Some n \<Rightarrow> n < 2)
        then (Inl (ValueError ''num_samples must be >= 2''), [])
      else if method \<noteq> ''nearest'' \<and> method \<noteq> ''bilinear''
        then (Inl (ValueError method_message), [])
      else
        let st = tile_loop ev start_xy end_xy input_crs spacing_m num_samples method
                   (tiffs_to_check ev start_xy end_xy) ([], [])
        in (concat_result (fst st), snd st))"

subsection \<open>A small tile store for the examples\<close>

text \<open>
  One tile, \<open>(0, 0)\<close>, of three by three cells at elevation 100, whose pixel coordinates are
  its world coordinates; every other tile is missing. Two identifiers resolve to a CRS; the
  transformers are the identity.
\<close>

definition utm32 :: crs where
  "utm32 = \<lparr>crs_id = ''EPSG:25832'', is_projected = True\<rparr>"

definition epsg4326 :: crs where
  "epsg4326 = \<lparr>crs_id = ''EPSG:4326'', is_projected = False\<rparr>"

definition flat_tile :: dataset where
  "flat_tile =
     \<lparr>ds_crs = Some ''EPSG:25832'',
      ds_transform = \<lparr>aff_a = 1, aff_b = 0, aff_c = 0, aff_d = 0, aff_e = 1, aff_f = 0\<rparr>,
      ds_nodata = None,
      ds_read = Inr [[Val 100, Val 100, Val 100],
                     [Val 100, Val 100, Val 100],
                     [Val 100, Val 100, Val 100]],
      ds_read_masks = Inr [[255, 255, 255], [255, 255, 255], [255, 255, 255]]\<rparr>"

definition example_env :: env where
  "example_env =
     \<lparr>to_25832 = (\<lambda>p. p),
      rasterio_open = (\<lambda>t. if t = (0, 0) then Inr flat_tile else Inl RasterioIOError),
      from_user_input =
        (\<lambda>s. if s = ''EPSG:25832'' then Inr utm32
             else if s = ''EPSG:4326'' then Inr epsg4326
             else Inl CRSError),
      wgs84 = epsg4326,
      from_crs = (\<lambda>c1 c2. Inr (\<lambda>p. p)),
      geod_inv = (\<lambda>p q. hypot (fst q - fst p) (snd q - snd p))\<rparr>"

section \<open>Properties\<close>

subsection \<open>Raster Sampler\<close>

text \<open>
  For coordinate arrays of equal length and an invertible transform the vectorised code
  samples every point on its own; the early return of the bilinear branch gives the same
  values.
\<close>

lemma sample_bilinear_outside: "\<not> bilinear_inside band row col \<Longrightarrow> sample_bilinear band row col = NaN"
  by (simp add: sample_bilinear_def Let_def)

lemma map_all_nan:
  "\<not> list_ex (\<lambda>(row, col). bilinear_inside band row col) rcs \<Longrightarrow>
   map (\<lambda>(row, col). sample_bilinear band row col) rcs = replicate (length rcs) NaN"
  by (induction rcs) (auto simp: sample_bilinear_outside)

lemma sample_raster_at_points_eq:
  assumes "affine_invert t = Inr inv_t" and "length xs = length ys"
  shows "sample_raster_at_points band t xs ys method =
         Inr (map2 (\<lambda>x y. sample_at band method (frac_row inv_t x y) (frac_col inv_t x y)) xs ys)"
proof -
  define rcs where "rcs = map2 (\<lambda>x y. (frac_row inv_t x y, frac_col inv_t x y)) xs ys"
  have b: "broadcast2 (\<lambda>x y. (frac_row inv_t x y, frac_col inv_t x y)) xs ys = Inr rcs"
    using assms(2) by (simp add: broadcast2_def rcs_def)
  have len: "length rcs = length xs" using assms(2) by (simp add: rcs_def)
  have m: "map (\<lambda>(row, col). f row col) rcs =
           map2 (\<lambda>x y. f (frac_row inv_t x y) (frac_col inv_t x y)) xs ys"
    for f :: "real \<Rightarrow> real \<Rightarrow> fval"
    by (simp add: rcs_def case_prod_unfold comp_def)
  have unf: "sample_raster_at_points band t xs ys method =
       (if method = ''nearest'' then Inr (map (\<lambda>(row, col). sample_nearest band row col) rcs)
        else if \<not> list_ex (\<lambda>(row, col). bilinear_inside band row col) rcs
          then Inr (replicate (length rcs) NaN)
        else Inr (map (\<lambda>(row, col). sample_bilinear band row col) rcs))"
    by (simp add: sample_raster_at_points_def assms(1) b len)
  have "sample_raster_at_points band t xs ys method =
       (if method = ''nearest'' then Inr (map (\<lambda>(row, col). sample_nearest band row col) rcs)
        else Inr (map (\<lambda>(row, col). sample_bilinear band row col) rcs))"
    unfolding unf using map_all_nan[of band rcs] by simp
  also have "\<dots> = Inr (map (\<lambda>(row, col). sample_at band method row col) rcs)"
    by (simp add: sample_at_def)
  finally show ?thesis
    unfolding m[of "sample_at band method"] .
qed

lemma sample_raster_at_points_nth:
  assumes "affine_invert t = Inr inv_t" and "length xs = length ys" and "k < length xs"
  shows "\<exists>vals. sample_raster_at_points band t xs ys method = Inr vals \<and>
           length vals = length xs \<and>
           vals ! k = sample_at band method (frac_row inv_t (xs ! k) (ys ! k))
                                            (frac_col inv_t (xs ! k) (ys ! k))"
  using assms by (simp add: sample_raster_at_points_eq[OF assms(1,2)])

lemma sample_bilinear_nan:
  "isnan (cell band \<lfloor>row\<rfloor> \<lfloor>col\<rfloor>) \<or> isnan (cell band \<lfloor>row\<rfloor> (\<lfloor>col\<rfloor> + 1)) \<or>
   isnan (cell band (\<lfloor>row\<rfloor> + 1) \<lfloor>col\<rfloor>) \<or> isnan (cell band (\<lfloor>row\<rfloor> + 1) (\<lfloor>col\<rfloor> + 1))
   \<Longrightarrow> sample_bilinear band row col = NaN"
  by (auto simp add: sample_bilinear_def Let_def)

lemma sample_bilinear_val:
  assumes "bilinear_inside band row col"
    and "cell band \<lfloor>row\<rfloor> \<lfloor>col\<rfloor> = Val v00"
    and "cell band \<lfloor>row\<rfloor> (\<lfloor>col\<rfloor> + 1) = Val v10"
    and "cell band (\<lfloor>row\<rfloor> + 1) \<lfloor>col\<rfloor> = Val v01"
    and "cell band (\<lfloor>row\<rfloor> + 1) (\<lfloor>col\<rfloor> + 1) = Val v11"
  shows "sample_bilinear band row col =
         Val ((1 - (col - of_int \<lfloor>col\<rfloor>)) * (1 - (row - of_int \<lfloor>row\<rfloor>)) * v00
              + (col - of_int \<lfloor>col\<rfloor>) * (1 - (row - of_int \<lfloor>row\<rfloor>)) * v10
              + (1 - (col - of_int \<lfloor>col\<rfloor>)) * (row - of_int \<lfloor>row\<rfloor>) * v01
              + (col - of_int \<lfloor>col\<rfloor>) * (row - of_int \<lfloor>row\<rfloor>) * v11)"
  using assms by (simp add: sample_bilinear_def Let_def)

lemma bilinear_inside_iff:
  "bilinear_inside band row col \<longleftrightarrow>
     0 \<le> \<lfloor>row\<rfloor> \<and> \<lfloor>row\<rfloor> + 1 < band_h band \<and> 0 \<le> \<lfloor>col\<rfloor> \<and> \<lfloor>col\<rfloor> + 1 < band_w band"
  by (simp add: bilinear_inside_def Let_def)

text \<open>
  Claim C3. Bilinear sampling of the point \<open>k\<close>, with \<open>row0\<close>, \<open>col0\<close> the floors of its
  fractional row and column and \<open>row1\<close>, \<open>col1\<close> their successors: the call succeeds with
  one value per point; the value is NaN unless \<open>row0 \<ge> 0\<close>, \<open>col0 \<ge> 0\<close>, \<open>row1 < height\<close> and
  \<open>col1 < width\<close>; it is NaN if one of the four neighbouring cells is NaN; otherwise it is
  the sum of the four cells weighted by \<open>(1-dj)(1-di)\<close>, \<open>dj(1-di)\<close>, \<open>(1-dj)di\<close> and \<open>dj*di\<close>.
\<close>

theorem bilinear_sampling:
  assumes "affine_invert t = Inr inv_t" and "length xs = length ys" and "k < length xs"
  shows "\<exists>vals. sample_raster_at_points band t xs ys ''bilinear'' = Inr vals \<and>
           length vals = length xs \<and>
           (let row = frac_row inv_t (xs ! k) (ys ! k);
                col = frac_col inv_t (xs ! k) (ys ! k);
                row0 = \<lfloor>row\<rfloor>; col0 = \<lfloor>col\<rfloor>; row1 = row0 + 1; col1 = col0 + 1;
                di = row - of_int row0; dj = col - of_int col0
            in (\<not> (0 \<le> row0 \<and> 0 \<le> col0 \<and> row1 < band_h band \<and> col1 < band_w band)
                  \<longrightarrow> vals ! k = NaN) \<and>
               (isnan (cell band row0 col0) \<or> isnan (cell band row0 col1) \<or>
                isnan (cell band row1 col0) \<or> isnan (cell band row1 col1)
                  \<longrightarrow> vals ! k = NaN) \<and>
               (\<forall>v00 v10 v01 v11.
                  0 \<le> row0 \<and> 0 \<le> col0 \<and> row1 < band_h band \<and> col1 < band_w band \<and>
                  cell band row0 col0 = Val v00 \<and> cell band row0 col1 = Val v10 \<and>
                  cell band row1 col0 = Val v01 \<and> cell band row1 col1 = Val v11
                  \<longrightarrow> vals ! k = Val ((1 - dj) * (1 - di) * v00 + dj * (1 - di) * v10
                                       + (1 - dj) * di * v01 + dj * di * v11)))"
proof -
  let ?row = "frac_row inv_t (xs ! k) (ys ! k)" and ?col = "frac_col inv_t (xs ! k) (ys ! k)"
  obtain vals where v: "sample_raster_at_points band t xs ys ''bilinear'' = Inr vals"
    "length vals = length xs" "vals ! k = sample_at band ''bilinear'' ?row ?col"
    using sample_raster_at_points_nth[OF assms] by blast
  have sb: "vals ! k = sample_bilinear band ?row ?col"
    using v(3) by (simp add: sample_at_def)
  have 1: "\<not> (0 \<le> \<lfloor>?row\<rfloor> \<and> 0 \<le> \<lfloor>?col\<rfloor> \<and> \<lfloor>?row\<rfloor> + 1 < band_h band \<and> \<lfloor>?col\<rfloor> + 1 < band_w band)
           \<longrightarrow> vals ! k = NaN"
    unfolding sb using sample_bilinear_outside[of band ?row ?col]
    by (auto simp: bilinear_inside_iff)
  have 2: "isnan (cell band \<lfloor>?row\<rfloor> \<lfloor>?col\<rfloor>) \<or> isnan (cell band \<lfloor>?row\<rfloor> (\<lfloor>?col\<rfloor> + 1)) \<or>
           isnan (cell band (\<lfloor>?row\<rfloor> + 1) \<lfloor>?col\<rfloor>) \<or> isnan (cell band (\<lfloor>?row\<rfloor> + 1) (\<lfloor>?col\<rfloor> + 1))
           \<longrightarrow> vals ! k = NaN"
    unfolding sb using sample_bilinear_nan[of band ?row ?col] by blast
  have 3: "0 \<le> \<lfloor>?row\<rfloor> \<and> 0 \<le> \<lfloor>?col\<rfloor> \<and> \<lfloor>?row\<rfloor> + 1 < band_h band \<and> \<lfloor>?col\<rfloor> + 1 < band_w band \<and>
           cell band \<lfloor>?row\<rfloor> \<lfloor>?col\<rfloor> = Val v00 \<and> cell band \<lfloor>?row\<rfloor> (\<lfloor>?col\<rfloor> + 1) = Val v10 \<and>
           cell band (\<lfloor>?row\<rfloor> + 1) \<lfloor>?col\<rfloor> = Val v01 \<and> cell band (\<lfloor>?row\<rfloor> + 1) (\<lfloor>?col\<rfloor> + 1) = Val v11
           \<longrightarrow> vals ! k = Val ((1 - (?col - of_int \<lfloor>?col\<rfloor>)) * (1 - (?row - of_int \<lfloor>?row\<rfloor>)) * v00
              + (?col - of_int \<lfloor>?col\<rfloor>) * (1 - (?row - of_int \<lfloor>?row\<rfloor>)) * v10
              + (1 - (?col - of_int \<lfloor>?col\<rfloor>)) * (?row - of_int \<lfloor>?row\<rfloor>) * v01
              + (?col - of_int \<lfloor>?col\<rfloor>) * (?row - of_int \<lfloor>?row\<rfloor>) * v11)" for v00 v10 v01 v11
    unfolding sb using sample_bilinear_val[of band ?row ?col v00 v10 v01 v11]
    by (simp add: bilinear_inside_iff)
  show ?thesis
    unfolding Let_def using v(1,2) 1 2 3 by blast
qed


lemma affine_invert_identity:
  "affine_invert \<lparr>aff_a = 1, aff_b = 0, aff_c = 0, aff_d = 0, aff_e = 1, aff_f = 0\<rparr> =
   Inr \<lparr>aff_a = 1, aff_b = 0, aff_c = 0, aff_d = 0, aff_e = 1, aff_f = 0\<rparr>"
  by (simp add: affine_invert_def)

theorem bilinear_sampling_witness:
  "\<exists>vals. sample_raster_at_points [[Val 0, Val 10], [Val 20, Val 30]]
             \<lparr>aff_a = 1, aff_b = 0, aff_c = 0, aff_d = 0, aff_e = 1, aff_f = 0\<rparr>
             [1 / 2] [1 / 4] ''bilinear'' = Inr vals \<and>
          length vals = 1 \<and> vals ! 0 = Val 10"
  using bilinear_sampling [OF affine_invert_identity, of "[1 / 2]" "[1 / 4]" 0
      "[[Val 0, Val 10], [Val 20, Val 30]]"]
  by (simp add: Let_def frac_row_def frac_col_def cell_def band_h_def band_w_def)

lemma np_rint_bounds:
  "x - 1 / 2 \<le> of_int (np_rint x) \<and> of_int (np_rint x) \<le> x + 1 / 2"
  unfolding np_rint_def Let_def by (auto; linarith)

lemma np_rint_of_int: "np_rint (of_int i) = i"
  by (simp add: np_rint_def Let_def)

lemma sample_nearest_outside:
  "\<not> (0 \<le> np_rint row \<and> np_rint row < band_h band \<and> 0 \<le> np_rint col \<and> np_rint col < band_w band)
   \<Longrightarrow> sample_nearest band row col = NaN"
  by (auto simp: sample_nearest_def nearest_inside_def Let_def)

lemma sample_nearest_far_outside:
  assumes "row < - 1 / 2 \<or> of_int (band_h band) - 1 / 2 < row \<or>
           col < - 1 / 2 \<or> of_int (band_w band) - 1 / 2 < col"
  shows "sample_nearest band row col = NaN"
proof -
  have r: "row - 1 / 2 \<le> of_int (np_rint row)" "of_int (np_rint row) \<le> row + 1 / 2"
    using np_rint_bounds[of row] by auto
  have c: "col - 1 / 2 \<le> of_int (np_rint col)" "of_int (np_rint col) \<le> col + 1 / 2"
    using np_rint_bounds[of col] by auto
  have "np_rint row < 0 \<or> band_h band \<le> np_rint row \<or> np_rint col < 0 \<or> band_w band \<le> np_rint col"
    using assms r c by (auto; linarith)
  then show ?thesis
    by (intro sample_nearest_outside) auto
qed

lemma sample_bilinear_frac_outside:
  assumes "\<not> (0 \<le> row \<and> row < of_int (band_h band) \<and> 0 \<le> col \<and> col < of_int (band_w band))"
  shows "sample_bilinear band row col = NaN"
proof -
  have "\<lfloor>row\<rfloor> < 0 \<or> band_h band \<le> \<lfloor>row\<rfloor> \<or> \<lfloor>col\<rfloor> < 0 \<or> band_w band \<le> \<lfloor>col\<rfloor>"
    using assms by (auto simp: le_floor_iff floor_less_iff not_le not_less)
  then have "\<not> bilinear_inside band row col"
    by (auto simp: bilinear_inside_iff)
  then show ?thesis by (rule sample_bilinear_outside)
qed

text \<open>
  Claim C7, as amended. A point whose fractional row and column lie outside
  \<open>[0, height) \<times> [0, width)\<close> is sampled as NaN by the bilinear method. The nearest method
  checks the rounded indices instead: it gives NaN when a rounded index (ties to even) is
  outside the raster, which is so for every point with \<open>row < -1/2\<close>, \<open>row > height - 1/2\<close>,
  \<open>col < -1/2\<close> or \<open>col > width - 1/2\<close>.
\<close>

theorem sampling_outside_is_nan:
  assumes "affine_invert t = Inr inv_t" and "length xs = length ys" and "k < length xs"
  shows "\<exists>vals. sample_raster_at_points band t xs ys method = Inr vals \<and>
           length vals = length xs \<and>
           (let row = frac_row inv_t (xs ! k) (ys ! k);
                col = frac_col inv_t (xs ! k) (ys ! k);
                h = band_h band; w = band_w band
            in (method \<noteq> ''nearest'' \<and>
                \<not> (0 \<le> row \<and> row < of_int h \<and> 0 \<le> col \<and> col < of_int w)
                  \<longrightarrow> vals ! k = NaN) \<and>
               (method = ''nearest'' \<and>
                \<not> (0 \<le> np_rint row \<and> np_rint row < h \<and> 0 \<le> np_rint col \<and> np_rint col < w)
                  \<longrightarrow> vals ! k = NaN) \<and>
               (method = ''nearest'' \<and>
                (row < - 1 / 2 \<or> of_int h - 1 / 2 < row \<or> col < - 1 / 2 \<or> of_int w - 1 / 2 < col)
                  \<longrightarrow> vals ! k = NaN))"
proof -
  let ?row = "frac_row inv_t (xs ! k) (ys ! k)" and ?col = "frac_col inv_t (xs ! k) (ys ! k)"
  obtain vals where v: "sample_raster_at_points band t xs ys method = Inr vals"
    "length vals = length xs" "vals ! k = sample_at band method ?row ?col"
    using sample_raster_at_points_nth[OF assms] by blast
  have 1: "method \<noteq> ''nearest'' \<and>
           \<not> (0 \<le> ?row \<and> ?row < of_int (band_h band) \<and> 0 \<le> ?col \<and> ?col < of_int (band_w band))
           \<longrightarrow> vals ! k = NaN"
    unfolding v(3) sample_at_def using sample_bilinear_frac_outside[of ?row band ?col] by simp
  have 2: "method = ''nearest'' \<and>
           \<not> (0 \<le> np_rint ?row \<and> np_rint ?row < band_h band \<and>
              0 \<le> np_rint ?col \<and> np_rint ?col < band_w band)
           \<longrightarrow> vals ! k = NaN"
    unfolding v(3) sample_at_def using sample_nearest_outside[of ?row band ?col] by simp
  have 3: "method = ''nearest'' \<and>
           (?row < - 1 / 2 \<or> of_int (band_h band) - 1 / 2 < ?row \<or>
            ?col < - 1 / 2 \<or> of_int (band_w band) - 1 / 2 < ?col)
           \<longrightarrow> vals ! k = NaN"
    unfolding v(3) sample_at_def using sample_nearest_far_outside[of ?row band ?col] by simp
  show ?thesis
    unfolding Let_def using v(1,2) 1 2 3 by blast
qed

theorem sampling_outside_is_nan_witness:
  "\<exists>vals. sample_raster_at_points [[Val 7]]
             \<lparr>aff_a = 1, aff_b = 0, aff_c = 0, aff_d = 0, aff_e = 1, aff_f = 0\<rparr>
             [0] [- 3 / 5] ''nearest'' = Inr vals \<and>
          length vals = 1 \<and> vals ! 0 = NaN"
  using sampling_outside_is_nan [OF affine_invert_identity, of "[0]" "[- 3 / 5]" 0
      "[[Val 7]]" "''nearest''"]
  by (auto simp add: Let_def frac_row_def frac_col_def band_h_def band_w_def)

text \<open>
  Claim C7 as stated fails for the nearest method: on a raster of one cell the point with
  fractional row \<open>-2/5\<close>, which is outside \<open>[0, 1)\<close>, rounds to row \<open>0\<close> and its sample is that
  cell's value, not NaN.
\<close>

theorem nearest_outside_counterexample:
  "sample_raster_at_points [[Val 7]]
     \<lparr>aff_a = 1, aff_b = 0, aff_c = 0, aff_d = 0, aff_e = 1, aff_f = 0\<rparr>
     [0] [- 2 / 5] ''nearest'' = Inr [Val 7] \<and>
   frac_row \<lparr>aff_a = 1, aff_b = 0, aff_c = 0, aff_d = 0, aff_e = 1, aff_f = 0\<rparr> 0 (- 2 / 5) < 0"
  by (simp add: sample_raster_at_points_def affine_invert_identity broadcast2_def frac_row_def
      frac_col_def sample_nearest_def nearest_inside_def np_rint_def Let_def band_h_def
      band_w_def cell_def)

lemma sample_bilinear_center:
  assumes "0 \<le> i" "i < band_h band" "0 \<le> j" "j < band_w band"
  shows "sample_bilinear band (of_int i) (of_int j) =
         (if i + 1 < band_h band \<and> j + 1 < band_w band \<and> \<not> isnan (cell band i (j + 1)) \<and>
             \<not> isnan (cell band (i + 1) j) \<and> \<not> isnan (cell band (i + 1) (j + 1))
          then cell band i j else NaN)"
proof (cases "cell band i j")
  case NaN
  then show ?thesis by (simp add: sample_bilinear_def Let_def)
next
  case (Val v)
  show ?thesis
  proof (cases "i + 1 < band_h band \<and> j + 1 < band_w band \<and> \<not> isnan (cell band i (j + 1)) \<and>
             \<not> isnan (cell band (i + 1) j) \<and> \<not> isnan (cell band (i + 1) (j + 1))")
    case True
    then obtain a b c where "cell band i (j + 1) = Val a" "cell band (i + 1) j = Val b"
        "cell band (i + 1) (j + 1) = Val c"
      by (metis isnan.elims(3))
    then show ?thesis
      using True Val assms by (simp add: sample_bilinear_def Let_def bilinear_inside_iff)
  next
    case False
    then show ?thesis
      by (auto simp add: sample_bilinear_def Let_def bilinear_inside_iff)
  qed
qed

lemma sample_nearest_center:
  assumes "0 \<le> i" "i < band_h band" "0 \<le> j" "j < band_w band"
  shows "sample_nearest band (of_int i) (of_int j) = cell band i j"
  using assms by (simp add: sample_nearest_def nearest_inside_def np_rint_of_int)

text \<open>
  Claim C8, as amended. At a point whose fractional row and column are the integers
  \<open>i\<close>, \<open>j\<close> of a cell of the raster, the nearest sample is the cell \<open>(i, j)\<close>, and the
  bilinear sample equals it exactly when that cell is NaN or the cells \<open>(i, j+1)\<close>,
  \<open>(i+1, j)\<close> and \<open>(i+1, j+1)\<close> are inside the raster and none of them is NaN.
\<close>

theorem bilinear_equals_nearest_at_center:
  assumes "affine_invert t = Inr inv_t" and "length xs = length ys" and "k < length xs"
    and "frac_row inv_t (xs ! k) (ys ! k) = of_int i"
    and "frac_col inv_t (xs ! k) (ys ! k) = of_int j"
    and "0 \<le> i" and "i < band_h band" and "0 \<le> j" and "j < band_w band"
  shows "\<exists>vb vn. sample_raster_at_points band t xs ys ''bilinear'' = Inr vb \<and>
           sample_raster_at_points band t xs ys ''nearest'' = Inr vn \<and>
           vn ! k = cell band i j \<and>
           (vb ! k = vn ! k \<longleftrightarrow>
              isnan (cell band i j) \<or>
              (i + 1 < band_h band \<and> j + 1 < band_w band \<and> \<not> isnan (cell band i (j + 1)) \<and>
               \<not> isnan (cell band (i + 1) j) \<and> \<not> isnan (cell band (i + 1) (j + 1))))"
proof -
  obtain vb where vb: "sample_raster_at_points band t xs ys ''bilinear'' = Inr vb"
    "vb ! k = sample_bilinear band (of_int i) (of_int j)"
    using sample_raster_at_points_nth[OF assms(1-3), of band "''bilinear''"] assms(4,5)
    by (auto simp: sample_at_def)
  obtain vn where vn: "sample_raster_at_points band t xs ys ''nearest'' = Inr vn"
    "vn ! k = sample_nearest band (of_int i) (of_int j)"
    using sample_raster_at_points_nth[OF assms(1-3), of band "''nearest''"] assms(4,5)
    by (auto simp: sample_at_def)
  have n: "vn ! k = cell band i j"
    using vn(2) sample_nearest_center[OF assms(6-9)] by simp
  have b: "vb ! k = (if i + 1 < band_h band \<and> j + 1 < band_w band \<and> \<not> isnan (cell band i (j + 1)) \<and>
             \<not> isnan (cell band (i + 1) j) \<and> \<not> isnan (cell band (i + 1) (j + 1))
          then cell band i j else NaN)"
    using vb(2) sample_bilinear_center[OF assms(6-9)] by simp
  have "vb ! k = vn ! k \<longleftrightarrow>
              isnan (cell band i j) \<or>
              (i + 1 < band_h band \<and> j + 1 < band_w band \<and> \<not> isnan (cell band i (j + 1)) \<and>
               \<not> isnan (cell band (i + 1) j) \<and> \<not> isnan (cell band (i + 1) (j + 1)))"
    unfolding n b by (cases "cell band i j") auto
  then show ?thesis using vb(1) vn(1) n by blast
qed

theorem bilinear_equals_nearest_at_center_witness:
  "\<exists>vb vn. sample_raster_at_points [[Val 0, Val 10], [Val 20, Val 30]]
             \<lparr>aff_a = 1, aff_b = 0, aff_c = 0, aff_d = 0, aff_e = 1, aff_f = 0\<rparr>
             [0] [0] ''bilinear'' = Inr vb \<and>
           sample_raster_at_points [[Val 0, Val 10], [Val 20, Val 30]]
             \<lparr>aff_a = 1, aff_b = 0, aff_c = 0, aff_d = 0, aff_e = 1, aff_f = 0\<rparr>
             [0] [0] ''nearest'' = Inr vn \<and>
           vn ! 0 = Val 0 \<and> vb ! 0 = vn ! 0"
  using bilinear_equals_nearest_at_center [OF affine_invert_identity, of "[0]" "[0]" 0 0 0
      "[[Val 0, Val 10], [Val 20, Val 30]]"]
  by (simp add: frac_row_def frac_col_def cell_def band_h_def band_w_def)

text \<open>
  Claim C8 as stated fails at the centre of a cell in the last row or column: on a raster
  of one cell the nearest sample at \<open>(0, 0)\<close> is the cell's value and the bilinear sample is
  NaN, because the neighbours \<open>row1 = 1\<close>, \<open>col1 = 1\<close> are not inside.
\<close>

theorem bilinear_center_counterexample:
  "sample_raster_at_points [[Val 7]]
     \<lparr>aff_a = 1, aff_b = 0, aff_c = 0, aff_d = 0, aff_e = 1, aff_f = 0\<rparr>
     [0] [0] ''nearest'' = Inr [Val 7] \<and>
   sample_raster_at_points [[Val 7]]
     \<lparr>aff_a = 1, aff_b = 0, aff_c = 0, aff_d = 0, aff_e = 1, aff_f = 0\<rparr>
     [0] [0] ''bilinear'' = Inr [NaN]"
  by (simp add: sample_raster_at_points_def affine_invert_identity broadcast2_def frac_row_def
      frac_col_def sample_nearest_def nearest_inside_def np_rint_def sample_bilinear_def
      bilinear_inside_def Let_def band_h_def band_w_def cell_def)


subsection \<open>Distance Accumulator\<close>

lemma hypot_nonneg: "0 \<le> hypot u v"
  by (simp add: hypot_def)

lemma hypot_scale: "hypot (a * d) (b * d) = \<bar>d\<bar> * hypot a b"
proof -
  have "(a * d)\<^sup>2 + (b * d)\<^sup>2 = d\<^sup>2 * (a\<^sup>2 + b\<^sup>2)"
    by (simp add: power_mult_distrib algebra_simps)
  then show ?thesis
    by (simp add: hypot_def real_sqrt_mult)
qed

lemma hypot_3_4: "hypot 3 4 = 5"
proof -
  have "sqrt (5\<^sup>2) = (5::real)" by simp
  then show ?thesis by (simp add: hypot_def)
qed

lemma length_cumsum_from: "length (cumsum_from acc xs) = length xs"
  by (induction xs arbitrary: acc) auto

lemma cumsum_from_lower:
  "\<forall>x\<in>set xs. 0 \<le> x \<Longrightarrow> y \<in> set (cumsum_from acc xs) \<Longrightarrow> acc \<le> y"
proof (induction xs arbitrary: acc)
  case Nil
  then show ?case by simp
next
  case (Cons x xs)
  then show ?case by fastforce
qed

lemma sorted_cumsum_from:
  "\<forall>x\<in>set xs. 0 \<le> x \<Longrightarrow> sorted (acc # cumsum_from acc xs)"
proof (induction xs arbitrary: acc)
  case Nil
  then show ?case by simp
next
  case (Cons x xs)
  have "sorted ((acc + x) # cumsum_from (acc + x) xs)"
    using Cons by simp
  moreover have "\<forall>y\<in>set ((acc + x) # cumsum_from (acc + x) xs). acc \<le> y"
    using cumsum_from_lower[of "x # xs" _ acc] Cons.prems by auto
  ultimately show ?case by simp
qed

lemma last_cumsum_from: "last (acc # cumsum_from acc xs) = acc + sum_list xs"
  by (induction xs arbitrary: acc) (auto simp: algebra_simps)

lemma length_np_diff: "length (np_diff xs) = length xs - 1"
  by (simp add: np_diff_def)

lemma segment_seg:
  "sorted ts \<Longrightarrow>
   map2 hypot (np_diff (map (\<lambda>t. x0 + dx * t) ts)) (np_diff (map (\<lambda>t. y0 + dy * t) ts)) =
   map2 (\<lambda>u v. (v - u) * hypot dx dy) ts (tl ts)"
proof (induction ts rule: induct_list012)
  case 1
  then show ?case by (simp add: np_diff_def)
next
  case (2 x)
  then show ?case by (simp add: np_diff_def)
next
  case (3 a b zs)
  have ih: "map2 hypot (np_diff (map (\<lambda>t. x0 + dx * t) (b # zs))) (np_diff (map (\<lambda>t. y0 + dy * t) (b # zs))) =
   map2 (\<lambda>u v. (v - u) * hypot dx dy) (b # zs) (tl (b # zs))"
    using 3 by simp
  have ab: "a \<le> b" using 3(3) by simp
  have "hypot (x0 + dx * b - (x0 + dx * a)) (y0 + dy * b - (y0 + dy * a)) = hypot (dx * (b - a)) (dy * (b - a))"
    by (simp add: algebra_simps)
  also have "\<dots> = (b - a) * hypot dx dy"
    using ab by (simp add: hypot_scale)
  finally have hd: "hypot (x0 + dx * b - (x0 + dx * a)) (y0 + dy * b - (y0 + dy * a)) = (b - a) * hypot dx dy" .
  show ?case
    using ih hd by (simp add: np_diff_def)
qed

lemma telescope:
  "ts \<noteq> [] \<Longrightarrow> sum_list (map2 (\<lambda>u v. (v - u) * c) ts (tl ts)) = (last ts - hd ts) * (c::real)"
proof (induction ts rule: induct_list012)
  case 1
  then show ?case by simp
next
  case (2 x)
  then show ?case by simp
next
  case (3 a b zs)
  then show ?case by (simp add: algebra_simps)
qed

lemma projected_distances:
  assumes "is_projected raster_crs" and "length xs = length ys"
  shows "compute_cumulative_distances ev raster_crs xs ys =
         Inr (0 # np_cumsum (map2 hypot (np_diff xs) (np_diff ys)))"
  using assms by (simp add: compute_cumulative_distances_def broadcast2_def length_np_diff)

text \<open>
  Claim C4. For a projected raster CRS and the points of a segment (at least one; the
  pipeline passes two or more), \<^verbatim>\<open>_compute_cumulative_distances\<close> returns one distance per
  point, the first is 0, the sequence is non-decreasing, and for points placed along the
  straight segment from \<open>(x0, y0)\<close> to \<open>(x1, y1)\<close> at non-decreasing parameters from 0 to 1
  the last distance is the Euclidean length of the segment (exactly, the arithmetic being
  exact).
\<close>

theorem cumulative_distances_projected:
  assumes "is_projected raster_crs" and "length xs = length ys" and "xs \<noteq> []"
  shows "\<exists>dist_m. compute_cumulative_distances ev raster_crs xs ys = Inr dist_m \<and>
           length dist_m = length xs \<and> dist_m ! 0 = 0 \<and> sorted dist_m \<and>
           (\<forall>x0 y0 x1 y1 ts.
              sorted ts \<and> ts \<noteq> [] \<and> hd ts = 0 \<and> last ts = 1 \<and>
              xs = map (\<lambda>t. x0 + (x1 - x0) * t) ts \<and> ys = map (\<lambda>t. y0 + (y1 - y0) * t) ts
              \<longrightarrow> last dist_m = hypot (x1 - x0) (y1 - y0))"
proof -
  define seg where "seg = map2 hypot (np_diff xs) (np_diff ys)"
  define dist_m where "dist_m = 0 # np_cumsum seg"
  have r: "compute_cumulative_distances ev raster_crs xs ys = Inr dist_m"
    using projected_distances[OF assms(1,2)] by (simp add: dist_m_def seg_def)
  have "length seg = length xs - 1"
    using assms(2) by (simp add: seg_def length_np_diff)
  then have len: "length dist_m = length xs"
    using assms(3) by (simp add: dist_m_def np_cumsum_def length_cumsum_from)
  have first: "dist_m ! 0 = 0" by (simp add: dist_m_def)
  have "\<forall>s\<in>set seg. 0 \<le> s"
    by (auto simp: seg_def hypot_nonneg dest!: set_zip_leftD set_zip_rightD  in_set_zipE)
  then have srt: "sorted dist_m"
    unfolding dist_m_def np_cumsum_def by (rule sorted_cumsum_from)
  have fin: "last dist_m = hypot (x1 - x0) (y1 - y0)"
    if h: "sorted ts" "ts \<noteq> []" "hd ts = 0" "last ts = 1"
      "xs = map (\<lambda>t. x0 + (x1 - x0) * t) ts" "ys = map (\<lambda>t. y0 + (y1 - y0) * t) ts"
    for x0 y0 x1 y1 ts
  proof -
    have "seg = map2 (\<lambda>u v. (v - u) * hypot (x1 - x0) (y1 - y0)) ts (tl ts)"
      unfolding seg_def h(5,6) using h(1) by (rule segment_seg)
    then have "sum_list seg = (last ts - hd ts) * hypot (x1 - x0) (y1 - y0)"
      using telescope[OF h(2)] by simp
    then have "sum_list seg = hypot (x1 - x0) (y1 - y0)"
      using h(3,4) by simp
    then show ?thesis
      unfolding dist_m_def np_cumsum_def last_cumsum_from by simp
  qed
  show ?thesis
    using r len first srt fin by blast
qed

theorem cumulative_distances_projected_witness:
  "\<exists>dist_m. compute_cumulative_distances example_env utm32 [0, 3 / 2, 3] [0, 2, 4] = Inr dist_m \<and>
          length dist_m = 3 \<and> dist_m ! 0 = 0 \<and> sorted dist_m \<and> last dist_m = 5"
proof -
  have p: "is_projected utm32" by (simp add: utm32_def)
  have l: "length [0, 3 / 2, 3::real] = length [0, 2, 4::real]" by simp
  have n: "[0, 3 / 2, 3::real] \<noteq> []" by simp
  obtain dist_m where d1:
    "compute_cumulative_distances example_env utm32 [0, 3 / 2, 3] [0, 2, 4] = Inr dist_m"
    and d2: "length dist_m = length [0, 3 / 2, 3::real]" and d3: "dist_m ! 0 = 0"
    and d4: "sorted dist_m"
    and d5: "\<forall>x0 y0 x1 y1 ts.
        sorted ts \<and> ts \<noteq> [] \<and> hd ts = 0 \<and> last ts = 1 \<and>
        [0, 3 / 2, 3] = map (\<lambda>t. x0 + (x1 - x0) * t) ts \<and>
        [0, 2, 4] = map (\<lambda>t. y0 + (y1 - y0) * t) ts
        \<longrightarrow> last dist_m = hypot (x1 - x0) (y1 - y0)"
    using cumulative_distances_projected [OF p l n, of example_env]
    by (elim exE conjE) 
  have "last dist_m = hypot (3 - 0) (4 - 0)"
    using d5[THEN spec, of 0, THEN spec, of 0, THEN spec, of 3, THEN spec, of 4,
        THEN spec, of "[0, 1 / 2, 1]"]
    by simp
  then have "last dist_m = 5" by (simp add: hypot_3_4)
  then show ?thesis
    using d1 d2 d3 d4 by simp
qed


subsection \<open>Sample Planner\<close>

lemma spacing_count:
  assumes "0 < S"
  shows "(if L \<le> 0 then 2 else max 2 (\<lfloor>L / S\<rfloor> + 1)) = max 2 (\<lfloor>L / S\<rfloor> + 1)"
proof (cases "L \<le> 0")
  case True
  then have "L / S \<le> 0" using assms by (simp add: divide_nonpos_pos)
  then have "\<lfloor>L / S\<rfloor> \<le> 0" by (simp add: floor_le_iff)
  then show ?thesis using True by simp
next
  case False
  then show ?thesis by simp
qed

lemma samples_from_spacing_projected:
  assumes "is_projected raster_crs" and "0 < S"
  shows "samples_from_spacing ev raster_crs p0 p1 S =
         Inr (max 2 (\<lfloor>hypot (fst p1 - fst p0) (snd p1 - snd p0) / S\<rfloor> + 1))"
  using assms spacing_count[OF assms(2)]
  by (simp add: samples_from_spacing_def Let_def)

lemma samples_from_spacing_geographic:
  assumes "\<not> is_projected raster_crs" and "0 < S"
    and "from_crs ev raster_crs (wgs84 ev) = Inr to_wgs84"
  shows "samples_from_spacing ev raster_crs p0 p1 S =
         Inr (max 2 (\<lfloor>geod_inv ev (to_wgs84 p0) (to_wgs84 p1) / S\<rfloor> + 1))"
  using assms spacing_count[OF assms(2)]
  by (simp add: samples_from_spacing_def Let_def)

lemma samples_from_spacing_ge_2:
  "samples_from_spacing ev raster_crs p0 p1 S = Inr N \<Longrightarrow> 2 \<le> N"
  by (auto simp: samples_from_spacing_def Let_def split: if_splits sum.splits)

lemma floor_count_ge_2:
  assumes "0 < S" and "S \<le> L"
  shows "max 2 (\<lfloor>L / S\<rfloor> + 1) = \<lfloor>L / S\<rfloor> + 1"
proof -
  have "1 \<le> L / S" using assms by simp
  then have "1 \<le> \<lfloor>L / S\<rfloor>" by (simp add: le_floor_iff)
  then show ?thesis by simp
qed

lemma floor_count_lt:
  assumes "0 < S" and "L < S"
  shows "max 2 (\<lfloor>L / S\<rfloor> + 1) = 2"
proof -
  have "L / S < 1" using assms by simp
  then have "\<lfloor>L / S\<rfloor> < 1" by (simp add: floor_less_iff)
  then show ?thesis by simp
qed

text \<open>
  Claim C5, as amended. For every spacing \<open>S > 0\<close> and a segment of length \<open>L\<close> (the planar
  hypot if the CRS is projected, the geodesic distance of the endpoints taken to WGS84
  otherwise), \<^verbatim>\<open>_samples_from_spacing\<close> returns \<open>N = max(2, floor(L/S) + 1)\<close>: always
  \<open>N \<ge> 2\<close>, \<open>N = floor(L/S) + 1\<close> when \<open>L \<ge> S\<close>, and \<open>N = 2\<close> when \<open>L < S\<close>.
\<close>

theorem samples_from_spacing_count:
  assumes "0 < S"
    and "is_projected raster_crs \<and> L = hypot (fst p1 - fst p0) (snd p1 - snd p0) \<or>
         \<not> is_projected raster_crs \<and> from_crs ev raster_crs (wgs84 ev) = Inr to_wgs84 \<and>
           L = geod_inv ev (to_wgs84 p0) (to_wgs84 p1)"
  shows "\<exists>N. samples_from_spacing ev raster_crs p0 p1 S = Inr N \<and> 2 \<le> N \<and>
           N = max 2 (\<lfloor>L / S\<rfloor> + 1) \<and>
           (S \<le> L \<longrightarrow> N = \<lfloor>L / S\<rfloor> + 1) \<and>
           (L < S \<longrightarrow> N = 2)"
proof -
  have r: "samples_from_spacing ev raster_crs p0 p1 S = Inr (max 2 (\<lfloor>L / S\<rfloor> + 1))"
    using assms(2) samples_from_spacing_projected[OF _ assms(1), of raster_crs ev p0 p1]
      samples_from_spacing_geographic[OF _ assms(1), of raster_crs ev to_wgs84 p0 p1]
    by auto
  show ?thesis
    using r floor_count_ge_2[OF assms(1), of L] floor_count_lt[OF assms(1), of L] by simp
qed


theorem samples_from_spacing_count_witness:
  "\<exists>N. samples_from_spacing example_env utm32 (0, 0) (3, 4) 2 = Inr N \<and> N = 3"
  using samples_from_spacing_count [of 2 utm32 5 "(3, 4)" "(0, 0)" example_env]
  by (simp add: utm32_def hypot_3_4)

text \<open>
  Claim C5 as stated fails for a segment shorter than the spacing: with \<open>L = 5\<close> and
  \<open>S = 10\<close> the count is 2, and \<open>floor(L/S) + 1\<close> is 1.
\<close>

theorem samples_from_spacing_counterexample:
  "samples_from_spacing example_env utm32 (0, 0) (3, 4) 10 = Inr 2 \<and>
   0 < hypot (3 - 0) (4 - 0) \<and>
   \<lfloor>hypot (3 - 0) (4 - 0) / 10\<rfloor> + 1 = (1::int)"
  by (simp add: samples_from_spacing_def utm32_def hypot_3_4 Let_def)


subsection \<open>Profile Assembler\<close>

lemma py_int_of_int: "py_int (of_int x) = x"
  by (simp add: py_int_def)

lemma tile_id_of_int: "tile_id (of_int x, of_int y) = (x, y)"
  by (simp add: tile_id_def py_int_of_int)

lemma sample_raster_at_points_length:
  "sample_raster_at_points band t xs ys method = Inr vals \<Longrightarrow> length vals = length xs"
  by (auto simp: sample_raster_at_points_def split: sum.splits if_splits)

lemma length_linspace01: "length (linspace01 N) = nat N"
  by (simp add: linspace01_def)

lemma compute_cumulative_distances_length:
  assumes "length xs = length ys" and "xs \<noteq> []"
    and "compute_cumulative_distances ev raster_crs xs ys = Inr dist_m"
  shows "length dist_m = length xs"
proof -
  have pos: "0 < length ys" "0 < length xs" using assms(1,2) by auto
  show ?thesis
  proof (cases "is_projected raster_crs")
    case True
    then show ?thesis
      using assms pos
      by (auto simp: compute_cumulative_distances_def broadcast2_def length_np_diff
          np_cumsum_def length_cumsum_from)
  next
    case False
    then show ?thesis
      using assms pos
      by (auto simp: compute_cumulative_distances_def transform_arrays_def np_cumsum_def
          length_cumsum_from Let_def split: sum.splits)
  qed
qed

lemma sample_count_ge_2:
  "sample_count ev raster_crs p0 p1 spacing_m num_samples = Inr N \<Longrightarrow> 2 \<le> N"
  by (auto simp: sample_count_def dest: samples_from_spacing_ge_2 split: option.splits if_splits)

lemma sample_count_default:
  assumes "spacing_m = None \<or> (\<exists>sp. spacing_m = Some sp \<and> sp \<le> 0)"
  shows "sample_count ev raster_crs p0 p1 spacing_m None = Inr 200"
  using assms by (auto simp: sample_count_def)

lemma process_tile_shape:
  assumes "process_tile ev start_xy end_xy input_crs spacing_m num_samples method ds =
           Inr (dist_m, vals)"
  shows "\<exists>raster_crs p0 p1 N.
           sample_count ev raster_crs p0 p1 spacing_m num_samples = Inr N \<and>
           length dist_m = nat N \<and> length vals = nat N"
proof -
  from assms obtain raster_crs to_raster N raw masks where
    sc: "sample_count ev raster_crs (to_raster start_xy) (to_raster end_xy) spacing_m num_samples = Inr N"
    and sv: "sample_raster_at_points (apply_mask masks (apply_nodata (ds_nodata ds) raw))
               (ds_transform ds)
               (map (\<lambda>ti. fst (to_raster start_xy) + (fst (to_raster end_xy) - fst (to_raster start_xy)) * ti) (linspace01 N))
               (map (\<lambda>ti. snd (to_raster start_xy) + (snd (to_raster end_xy) - snd (to_raster start_xy)) * ti) (linspace01 N))
               method = Inr vals"
    and cd: "compute_cumulative_distances ev raster_crs
               (map (\<lambda>ti. fst (to_raster start_xy) + (fst (to_raster end_xy) - fst (to_raster start_xy)) * ti) (linspace01 N))
               (map (\<lambda>ti. snd (to_raster start_xy) + (snd (to_raster end_xy) - snd (to_raster start_xy)) * ti) (linspace01 N))
               = Inr dist_m"
    unfolding process_tile_def Let_def
    by (auto split: sum.splits)
  have N2: "2 \<le> N" using sc by (rule sample_count_ge_2)
  have lv: "length vals = nat N"
    using sample_raster_at_points_length[OF sv] by (simp add: length_linspace01)
  have "length dist_m = nat N"
    using compute_cumulative_distances_length[OF _ _ cd] N2
    by (simp add: length_linspace01 linspace01_def)
  then show ?thesis using sc lv by blast
qed

text \<open>
  The parameters of lines 58-60 start at 0, end at 1 and do not decrease, so the sample
  points of the pipeline are points placed in order along the segment.
\<close>

lemma linspace01_ends:
  assumes "2 \<le> N"
  shows "linspace01 N \<noteq> [] \<and> hd (linspace01 N) = 0 \<and> last (linspace01 N) = 1 \<and>
         sorted (linspace01 N)"
proof -
  have n: "0 < nat N" "nat N - 1 < nat N" "N \<noteq> 1" using assms by auto
  have ne: "linspace01 N \<noteq> []"
    using n by (simp add: linspace01_def)
  have h: "hd (linspace01 N) = 0"
    using n by (simp add: linspace01_def hd_map upt_conv_Cons)
  have "last (linspace01 N) = real (nat N - 1) / real_of_int (N - 1)"
    using n by (simp add: linspace01_def last_map)
  also have "real (nat N - 1) = real_of_int (N - 1)"
    using assms by simp
  finally have l: "last (linspace01 N) = 1"
    using assms by simp
  have "sorted (map (\<lambda>i. real i / real_of_int (N - 1)) [0..<nat N])"
    using assms by (auto simp: sorted_map sorted_wrt_iff_nth_less divide_right_mono)
  then have s: "sorted (linspace01 N)"
    using n by (simp add: linspace01_def)
  show ?thesis using ne h l s by simp
qed

lemma tile_samples_total:
  "length distance_m \<le> length elevation \<Longrightarrow> \<exists>r. tile_samples distance_m elevation = Inr r"
proof (induction distance_m elevation rule: tile_samples.induct)
  case (1 elevation)
  then show ?case by simp
next
  case (2 dm distance_m)
  then show ?case by simp
next
  case (3 dm distance_m el elevation)
  then obtain r where "tile_samples distance_m elevation = Inr r" by auto
  then show ?case by (cases el) auto
qed

lemma concat_result_total:
  "\<forall>r\<in>set results_array. length (fst r) \<le> length (snd r)
   \<Longrightarrow> \<exists>profile. concat_result results_array = Inr profile"
proof (induction results_array)
  case Nil
  then show ?case by simp
next
  case (Cons r rs)
  then obtain rest where rest: "concat_result rs = Inr rest" by auto
  obtain here where "tile_samples (fst r) (snd r) = Inr here"
    using tile_samples_total[of "fst r" "snd r"] Cons.prems by auto
  then show ?case using rest by simp
qed

text \<open>The loop, as a whole.\<close>

lemma tile_loop_eq:
  "tile_loop ev s e c sp ns m tiffs (results_array, trace) =
     (results_array @
        concat (map (\<lambda>tiff. case try_tile ev s e c sp ns m tiff of
                              Inl err \<Rightarrow> [] | Inr result \<Rightarrow> [result]) tiffs),
      trace @
        concat (map (\<lambda>tiff. case try_tile ev s e c sp ns m tiff of
                              Inl err \<Rightarrow> [OpenTile (tile_id tiff), PrintError tiff err]
                            | Inr result \<Rightarrow> [OpenTile (tile_id tiff)]) tiffs))"
proof (induction tiffs arbitrary: results_array trace)
  case Nil
  then show ?case by simp
next
  case (Cons tiff rest)
  show ?case
    by (cases "try_tile ev s e c sp ns m tiff") (simp_all add: Cons)
qed

lemma try_tile_shape:
  assumes "try_tile ev s e c sp ns m tiff = Inr (dist_m, vals)"
  shows "\<exists>raster_crs p0 p1 N.
           sample_count ev raster_crs p0 p1 sp ns = Inr N \<and>
           length dist_m = nat N \<and> length vals = nat N"
  using assms process_tile_shape
  by (auto simp: try_tile_def split: sum.splits)

lemma tile_loop_results:
  assumes "r \<in> set (fst (tile_loop ev s e c sp ns m tiffs ([], [])))"
  shows "\<exists>tiff\<in>set tiffs. try_tile ev s e c sp ns m tiff = Inr r"
  using assms by (auto simp: tile_loop_eq split: sum.splits)

lemma get_elevation_profile_valid:
  assumes "num_samples = None \<or> (\<exists>n. num_samples = Some n \<and> 2 \<le> n)"
    and "method = ''nearest'' \<or> method = ''bilinear''"
  shows "get_elevation_profile ev s e c sp num_samples method =
           (concat_result (fst (tile_loop ev s e c sp num_samples method
                                  (tiffs_to_check ev s e) ([], []))),
            snd (tile_loop ev s e c sp num_samples method (tiffs_to_check ev s e) ([], [])))"
  using assms by (auto simp: get_elevation_profile_def Let_def)

lemma tile_loop_results_total:
  "\<exists>profile. concat_result (fst (tile_loop ev s e c sp ns m tiffs ([], []))) = Inr profile"
proof (rule concat_result_total, rule ballI)
  fix r assume "r \<in> set (fst (tile_loop ev s e c sp ns m tiffs ([], [])))"
  then obtain tiff where "try_tile ev s e c sp ns m tiff = Inr r"
    using tile_loop_results by blast
  then have "try_tile ev s e c sp ns m tiff = Inr (fst r, snd r)" by simp
  from try_tile_shape[OF this] show "length (fst r) \<le> length (snd r)" by auto
qed


text \<open>For the non-negative coordinates of the tiled area \<^verbatim>\<open>int\<close> is the floor.\<close>

lemma py_int_floor: "0 \<le> x \<Longrightarrow> py_int x = \<lfloor>x\<rfloor>"
  by (simp add: py_int_def)

lemma tile_ids_eq:
  "map tile_id (tiffs_to_check ev s e) =
     tile_id (fst (to_25832 ev s) / 1000, snd (to_25832 ev s) / 1000) #
     tile_id (fst (to_25832 ev e) / 1000, snd (to_25832 ev e) / 1000) #
     concat (map (\<lambda>x. map (\<lambda>y. (x, y))
                   [py_int (snd (to_25832 ev s) / 1000)..py_int (snd (to_25832 ev e) / 1000)])
              [py_int (fst (to_25832 ev s) / 1000)..py_int (fst (to_25832 ev e) / 1000)])"
  by (simp add: tiffs_to_check_def Let_def map_concat comp_def tile_id_of_int)

text \<open>
  Claim C1, as amended. With \<open>int\<close> the truncation toward zero, the first candidate is
  always the tile of the start point and the second the tile of the end point. When
  \<open>int(start_tx) \<le> int(end_tx)\<close> and \<open>int(start_ty) \<le> int(end_ty)\<close>, these two are followed
  by the sweep and by nothing else: every integer pair \<open>(x, y)\<close> with
  \<open>int(start_tx) \<le> x \<le> int(end_tx)\<close> and \<open>int(start_ty) \<le> y \<le> int(end_ty)\<close>, each exactly
  once, \<open>x\<close> ascending and \<open>y\<close> ascending within one \<open>x\<close>. The candidates are then not
  deduplicated: the start tile and the end tile both occur again in the sweep, and are
  opened again.
\<close>

theorem candidate_tiles:
  "let sx = py_int (fst (to_25832 ev s) / 1000); sy = py_int (snd (to_25832 ev s) / 1000);
       ex = py_int (fst (to_25832 ev e) / 1000); ey = py_int (snd (to_25832 ev e) / 1000);
       ids = map tile_id (tiffs_to_check ev s e)
   in 2 \<le> length ids \<and> ids ! 0 = (sx, sy) \<and> ids ! 1 = (ex, ey) \<and>
      (sx \<le> ex \<and> sy \<le> ey \<longrightarrow>
         drop 2 ids = concat (map (\<lambda>x. map (\<lambda>y. (x, y)) [sy..ey]) [sx..ex]) \<and>
         distinct (drop 2 ids) \<and>
         (\<forall>x y. (x, y) \<in> set (drop 2 ids) \<longleftrightarrow> sx \<le> x \<and> x \<le> ex \<and> sy \<le> y \<and> y \<le> ey) \<and>
         (\<forall>x y. (x, y) \<in> set ids \<longleftrightarrow> sx \<le> x \<and> x \<le> ex \<and> sy \<le> y \<and> y \<le> ey) \<and>
         (sx, sy) \<in> set (drop 2 ids) \<and> (ex, ey) \<in> set (drop 2 ids) \<and>
         \<not> distinct ids)"
proof -
  define sx where "sx = py_int (fst (to_25832 ev s) / 1000)"
  define sy where "sy = py_int (snd (to_25832 ev s) / 1000)"
  define ex where "ex = py_int (fst (to_25832 ev e) / 1000)"
  define ey where "ey = py_int (snd (to_25832 ev e) / 1000)"
  define sweep where "sweep = concat (map (\<lambda>x. map (\<lambda>y. (x, y)) [sy..ey]) [sx..ex])"
  define ids where "ids = map tile_id (tiffs_to_check ev s e)"
  have ids: "ids = (sx, sy) # (ex, ey) # sweep"
    unfolding ids_def tile_ids_eq sweep_def sx_def sy_def ex_def ey_def
    by (simp add: tile_id_def)
  have d2: "drop 2 ids = sweep"
    by (simp add: ids)
  have box: "(x, y) \<in> set sweep \<longleftrightarrow> sx \<le> x \<and> x \<le> ex \<and> sy \<le> y \<and> y \<le> ey" for x y
    by (force simp: sweep_def)
  have "sweep = List.product [sx..ex] [sy..ey]"
    by (simp add: sweep_def product_concat_map)
  then have dis: "distinct sweep"
    by (simp add: distinct_product)
  have first: "2 \<le> length ids" "ids ! 0 = (sx, sy)" "ids ! 1 = (ex, ey)"
    by (simp_all add: ids)
  have asc: "drop 2 ids = sweep \<and> distinct (drop 2 ids) \<and>
         (\<forall>x y. (x, y) \<in> set (drop 2 ids) \<longleftrightarrow> sx \<le> x \<and> x \<le> ex \<and> sy \<le> y \<and> y \<le> ey) \<and>
         (\<forall>x y. (x, y) \<in> set ids \<longleftrightarrow> sx \<le> x \<and> x \<le> ex \<and> sy \<le> y \<and> y \<le> ey) \<and>
         (sx, sy) \<in> set (drop 2 ids) \<and> (ex, ey) \<in> set (drop 2 ids) \<and> \<not> distinct ids"
    if le: "sx \<le> ex \<and> sy \<le> ey"
  proof -
    have s_in: "(sx, sy) \<in> set sweep" and e_in: "(ex, ey) \<in> set sweep"
      using le by (simp_all add: box)
    have all: "(x, y) \<in> set ids \<longleftrightarrow> sx \<le> x \<and> x \<le> ex \<and> sy \<le> y \<and> y \<le> ey" for x y
      using le box[of x y] by (auto simp: ids)
    have "\<not> distinct ids"
      using s_in by (simp add: ids)
    then show ?thesis
      using d2 dis box all s_in e_in by simp
  qed
  show ?thesis
    unfolding Let_def ids_def [symmetric] sx_def [symmetric] sy_def [symmetric]
      ex_def [symmetric] ey_def [symmetric]
    using first asc unfolding sweep_def by blast
qed

lemma example_env_to_25832: "to_25832 example_env p = p"
  by (simp add: example_env_def)

theorem candidate_tiles_witness:
  "map tile_id (tiffs_to_check example_env (1500, 2500) (2500, 3500)) ! 0 = (1, 2) \<and>
   map tile_id (tiffs_to_check example_env (1500, 2500) (2500, 3500)) ! 1 = (2, 3) \<and>
   drop 2 (map tile_id (tiffs_to_check example_env (1500, 2500) (2500, 3500))) =
     [(1, 2), (1, 3), (2, 2), (2, 3)] \<and>
   \<not> distinct (map tile_id (tiffs_to_check example_env (1500, 2500) (2500, 3500)))"
  using candidate_tiles [of example_env "(1500, 2500)" "(2500, 3500)"]
  by (simp add: Let_def example_env_to_25832 py_int_def upto.simps)

text \<open>
  Claim C1 as stated fails in its last part. For the segment from \<open>(350500, 5643500)\<close> to
  \<open>(352500, 5645500)\<close> the start tile \<open>(350, 5643)\<close> is the first candidate and comes again as
  the first tile of the sweep: the candidates are not deduplicated.
\<close>

theorem candidate_tiles_counterexample:
  "map tile_id (tiffs_to_check example_env (350500, 5643500) (352500, 5645500)) ! 0
     = (350, 5643) \<and>
   map tile_id (tiffs_to_check example_env (350500, 5643500) (352500, 5645500)) ! 2
     = (350, 5643) \<and>
   \<not> distinct (map tile_id (tiffs_to_check example_env (350500, 5643500) (352500, 5645500)))"
  by (simp add: tile_ids_eq example_env_to_25832 py_int_def tile_id_def upto.simps)

text \<open>The trace of the loop lists every candidate tile, in order, as an attempted open.\<close>

lemma opens_of_trace:
  "[t. OpenTile t \<leftarrow> concat (map (\<lambda>tiff. case try_tile ev s e c sp ns m tiff of
                              Inl err \<Rightarrow> [OpenTile (tile_id tiff), PrintError tiff err]
                            | Inr result \<Rightarrow> [OpenTile (tile_id tiff)]) tiffs)] =
   map tile_id tiffs"
  by (induction tiffs) (auto split: sum.splits)

lemma try_tile_open_fails:
  "rasterio_open ev (tile_id tiff) = Inl err \<Longrightarrow> try_tile ev s e c sp ns m tiff = Inl err"
  by (simp add: try_tile_def)

lemma process_tile_decode_fails:
  "ds_read ds = Inl err \<or> ds_read_masks ds = Inl err \<Longrightarrow>
   \<exists>err'. process_tile ev s e c sp ns m ds = Inl err'"
  by (auto simp: process_tile_def Let_def split: sum.splits option.splits)

lemma try_tile_decode_fails:
  assumes "rasterio_open ev (tile_id tiff) = Inr ds"
    and "ds_read ds = Inl err \<or> ds_read_masks ds = Inl err"
  shows "\<exists>err'. try_tile ev s e c sp ns m tiff = Inl err'"
  using process_tile_decode_fails[OF assms(2)] assms(1) by (simp add: try_tile_def)

lemma process_tile_bad_crs:
  "from_user_input ev input_crs = Inl err \<Longrightarrow>
   \<exists>err'. process_tile ev s e input_crs sp ns m ds = Inl err'"
  by (auto simp: process_tile_def split: sum.splits option.splits)

lemma try_tile_bad_crs:
  assumes "from_user_input ev input_crs = Inl err"
  shows "\<exists>err'. try_tile ev s e input_crs sp ns m tiff = Inl err'"
  using process_tile_bad_crs[OF assms] by (auto simp: try_tile_def split: sum.splits)

lemma tile_loop_all_fail:
  assumes "\<forall>tiff\<in>set tiffs. \<exists>err. try_tile ev s e c sp ns m tiff = Inl err"
  shows "fst (tile_loop ev s e c sp ns m tiffs ([], [])) = []"
  using assms by (auto simp: tile_loop_eq)

lemma tile_loop_prints:
  assumes "tiff \<in> set tiffs" and "try_tile ev s e c sp ns m tiff = Inl err"
  shows "PrintError tiff err \<in> set (snd (tile_loop ev s e c sp ns m tiffs ([], [])))"
  using assms by (force simp: tile_loop_eq)

text \<open>
  Claim C2. For a request that passes the validation of \<^verbatim>\<open>num_samples\<close> and \<^verbatim>\<open>method\<close> the
  call returns a profile, never an exception. Every candidate tile is tried, in order,
  whatever happened to the tiles before it. The profile is made of the tiles whose
  iteration succeeded, the others contributing nothing; a tile that fails to open is such a
  skipped tile and its error is printed, and so is an opened tile whose band or mask fails
  to decode. If no candidate tile can be opened the profile is the empty list.
\<close>

theorem tile_failures_are_skipped:
  assumes "num_samples = None \<or> (\<exists>n. num_samples = Some n \<and> 2 \<le> n)"
    and "method = ''nearest'' \<or> method = ''bilinear''"
  shows "\<exists>profile trace.
           get_elevation_profile ev s e c sp num_samples method = (Inr profile, trace) \<and>
           [t. OpenTile t \<leftarrow> trace] = map tile_id (tiffs_to_check ev s e) \<and>
           concat_result
             (concat (map (\<lambda>tiff. case try_tile ev s e c sp num_samples method tiff of
                                    Inl err \<Rightarrow> [] | Inr result \<Rightarrow> [result])
                          (tiffs_to_check ev s e))) = Inr profile \<and>
           (\<forall>tiff\<in>set (tiffs_to_check ev s e). \<forall>err.
              rasterio_open ev (tile_id tiff) = Inl err \<longrightarrow>
              try_tile ev s e c sp num_samples method tiff = Inl err \<and>
              PrintError tiff err \<in> set trace) \<and>
           (\<forall>tiff\<in>set (tiffs_to_check ev s e). \<forall>ds err.
              rasterio_open ev (tile_id tiff) = Inr ds \<and>
              (ds_read ds = Inl err \<or> ds_read_masks ds = Inl err) \<longrightarrow>
              (\<exists>err'. try_tile ev s e c sp num_samples method tiff = Inl err' \<and>
                      PrintError tiff err' \<in> set trace)) \<and>
           ((\<forall>tiff\<in>set (tiffs_to_check ev s e). \<exists>err. rasterio_open ev (tile_id tiff) = Inl err)
              \<longrightarrow> profile = [])"
proof -
  let ?tiffs = "tiffs_to_check ev s e"
  let ?st = "tile_loop ev s e c sp num_samples method ?tiffs ([], [])"
  obtain profile where p: "concat_result (fst ?st) = Inr profile"
    using tile_loop_results_total by blast
  have g: "get_elevation_profile ev s e c sp num_samples method = (Inr profile, snd ?st)"
    using get_elevation_profile_valid[OF assms] p by simp
  have o: "[t. OpenTile t \<leftarrow> snd ?st] = map tile_id ?tiffs"
    unfolding tile_loop_eq using opens_of_trace by simp
  have r: "concat_result
             (concat (map (\<lambda>tiff. case try_tile ev s e c sp num_samples method tiff of
                                    Inl err \<Rightarrow> [] | Inr result \<Rightarrow> [result]) ?tiffs)) = Inr profile"
    using p by (simp add: tile_loop_eq)
  have f: "\<forall>tiff\<in>set ?tiffs. \<forall>err.
              rasterio_open ev (tile_id tiff) = Inl err \<longrightarrow>
              try_tile ev s e c sp num_samples method tiff = Inl err \<and>
              PrintError tiff err \<in> set (snd ?st)"
    using try_tile_open_fails tile_loop_prints by blast
  have d: "\<forall>tiff\<in>set ?tiffs. \<forall>ds err.
              rasterio_open ev (tile_id tiff) = Inr ds \<and>
              (ds_read ds = Inl err \<or> ds_read_masks ds = Inl err) \<longrightarrow>
              (\<exists>err'. try_tile ev s e c sp num_samples method tiff = Inl err' \<and>
                      PrintError tiff err' \<in> set (snd ?st))"
  proof (intro ballI allI impI)
    fix tiff ds err
    assume t: "tiff \<in> set ?tiffs"
      and "rasterio_open ev (tile_id tiff) = Inr ds \<and>
           (ds_read ds = Inl err \<or> ds_read_masks ds = Inl err)"
    then obtain err' where e: "try_tile ev s e c sp num_samples method tiff = Inl err'"
      using try_tile_decode_fails[of ev tiff ds err s e c sp num_samples "method"] by blast
    then have "PrintError tiff err' \<in> set (snd ?st)"
      using tile_loop_prints[OF t] by blast
    then show "\<exists>err'. try_tile ev s e c sp num_samples method tiff = Inl err' \<and>
                 PrintError tiff err' \<in> set (snd ?st)"
      using e by blast
  qed
  have a: "profile = []"
    if "\<forall>tiff\<in>set ?tiffs. \<exists>err. rasterio_open ev (tile_id tiff) = Inl err"
  proof -
    have "\<forall>tiff\<in>set ?tiffs. \<exists>err. try_tile ev s e c sp num_samples method tiff = Inl err"
      using that try_tile_open_fails by blast
    then have "fst ?st = []" by (rule tile_loop_all_fail)
    then show ?thesis using p by simp
  qed
  show ?thesis
    using g o r f d a by blast
qed

lemma try_tile_bad_crs_eq:
  assumes "from_user_input ev input_crs = Inl err"
  shows "try_tile ev s e input_crs sp ns m tiff =
           Inl (case rasterio_open ev (tile_id tiff) of
                  Inl open_err \<Rightarrow> open_err
                | Inr ds \<Rightarrow>
                    (case ds_crs ds of
                       None \<Rightarrow> err
                     | Some cid \<Rightarrow>
                         (case from_user_input ev cid of
                            Inl crs_err \<Rightarrow> crs_err
                          | Inr raster_crs \<Rightarrow> err)))"
  using assms by (simp add: try_tile_def process_tile_def split: sum.splits option.splits)

text \<open>
  Claim C6, as amended. The input CRS identifier is resolved inside the per-tile
  \<^verbatim>\<open>try\<close> block (line 44). When it cannot be resolved, every candidate tile is still tried,
  in order, and exactly one error is caught and printed for it: the error of the open if
  the tile cannot be opened; for an opened tile the error of resolving the tile's own CRS if
  that fails, and the error of resolving the input CRS otherwise. No tile contributes, and
  the call returns the empty profile as a successful result.
\<close>

theorem unresolved_input_crs_is_swallowed:
  assumes "num_samples = None \<or> (\<exists>n. num_samples = Some n \<and> 2 \<le> n)"
    and "method = ''nearest'' \<or> method = ''bilinear''"
    and "from_user_input ev input_crs = Inl err"
  shows "get_elevation_profile ev s e input_crs sp num_samples method =
           (Inr [],
            concat (map (\<lambda>tiff.
                      [OpenTile (tile_id tiff),
                       PrintError tiff
                         (case rasterio_open ev (tile_id tiff) of
                            Inl open_err \<Rightarrow> open_err
                          | Inr ds \<Rightarrow>
                              (case ds_crs ds of
                                 None \<Rightarrow> err
                               | Some cid \<Rightarrow>
                                   (case from_user_input ev cid of
                                      Inl crs_err \<Rightarrow> crs_err
                                    | Inr raster_crs \<Rightarrow> err)))])
                    (tiffs_to_check ev s e)))"
proof -
  let ?tiffs = "tiffs_to_check ev s e"
  let ?st = "tile_loop ev s e input_crs sp num_samples method ?tiffs ([], [])"
  have g: "get_elevation_profile ev s e input_crs sp num_samples method =
             (concat_result (fst ?st), snd ?st)"
    using get_elevation_profile_valid[OF assms(1,2)] by simp
  have z: "concat (map (\<lambda>tiff. []) xs) = ([] :: (real list \<times> fval list) list)"
    for xs :: "(real \<times> real) list"
    by (induction xs) simp_all
  show ?thesis
    unfolding g tile_loop_eq try_tile_bad_crs_eq[OF assms(3)] by (simp add: z)
qed

text \<open>
  Claim C9, as amended. The call fails with \<^verbatim>\<open>ValueError\<close>, before any tile is opened
  (the trace is empty), when \<^verbatim>\<open>num_samples\<close> is supplied and less than 2, and otherwise when
  \<^verbatim>\<open>method\<close> is neither \<^verbatim>\<open>nearest\<close> nor \<^verbatim>\<open>bilinear\<close>. In every other case, also when
  neither \<^verbatim>\<open>spacing_m\<close> nor \<^verbatim>\<open>num_samples\<close> is usable, it raises nothing and returns a
  profile.
\<close>

theorem validation_errors:
  "(\<forall>n. num_samples = Some n \<and> n < 2 \<longrightarrow>
        get_elevation_profile ev s e c sp num_samples method =
          (Inl (ValueError ''num_samples must be >= 2''), [])) \<and>
   ((num_samples = None \<or> (\<exists>n. num_samples = Some n \<and> 2 \<le> n)) \<and>
    method \<noteq> ''nearest'' \<and> method \<noteq> ''bilinear'' \<longrightarrow>
        get_elevation_profile ev s e c sp num_samples method =
          (Inl (ValueError method_message), [])) \<and>
   ((num_samples = None \<or> (\<exists>n. num_samples = Some n \<and> 2 \<le> n)) \<and>
    (method = ''nearest'' \<or> method = ''bilinear'') \<longrightarrow>
        (\<exists>profile. fst (get_elevation_profile ev s e c sp num_samples method) = Inr profile))"
proof (intro conjI allI impI)
  fix n assume "num_samples = Some n \<and> n < 2"
  then show "get_elevation_profile ev s e c sp num_samples method =
          (Inl (ValueError ''num_samples must be >= 2''), [])"
    by (simp add: get_elevation_profile_def)
next
  assume "(num_samples = None \<or> (\<exists>n. num_samples = Some n \<and> 2 \<le> n)) \<and>
    method \<noteq> ''nearest'' \<and> method \<noteq> ''bilinear''"
  then show "get_elevation_profile ev s e c sp num_samples method =
          (Inl (ValueError method_message), [])"
    by (auto simp add: get_elevation_profile_def)
next
  assume a: "(num_samples = None \<or> (\<exists>n. num_samples = Some n \<and> 2 \<le> n)) \<and>
    (method = ''nearest'' \<or> method = ''bilinear'')"
  then have "get_elevation_profile ev s e c sp num_samples method =
           (concat_result (fst (tile_loop ev s e c sp num_samples method
                                  (tiffs_to_check ev s e) ([], []))),
            snd (tile_loop ev s e c sp num_samples method (tiffs_to_check ev s e) ([], [])))"
    using get_elevation_profile_valid by blast
  then show "\<exists>profile. fst (get_elevation_profile ev s e c sp num_samples method) = Inr profile"
    using tile_loop_results_total[of ev s e c sp num_samples "method" "tiffs_to_check ev s e"]
    by simp
qed

lemma try_tile_default:
  assumes "spacing_m = None \<or> (\<exists>sp. spacing_m = Some sp \<and> sp \<le> 0)"
    and "rasterio_open ev (tile_id tiff) = Inr ds"
    and "(case ds_crs ds of None \<Rightarrow> Inr (wgs84 ev) | Some cid \<Rightarrow> from_user_input ev cid)
         = Inr raster_crs"
    and "from_user_input ev c = Inr in_crs"
    and "from_crs ev in_crs raster_crs = Inr to_raster"
    and "ds_read ds = Inr raw" and "ds_read_masks ds = Inr masks"
  shows "try_tile ev s e c spacing_m None method tiff =
           (let xs = map (\<lambda>ti. fst (to_raster s) + (fst (to_raster e) - fst (to_raster s)) * ti)
                         (linspace01 200);
                ys = map (\<lambda>ti. snd (to_raster s) + (snd (to_raster e) - snd (to_raster s)) * ti)
                         (linspace01 200);
                band = apply_mask masks (apply_nodata (ds_nodata ds) raw)
            in case sample_raster_at_points band (ds_transform ds) xs ys method of
                 Inl err \<Rightarrow> Inl err
               | Inr vals \<Rightarrow>
                   (case compute_cumulative_distances ev raster_crs xs ys of
                      Inl err \<Rightarrow> Inl err
                    | Inr dist_m \<Rightarrow> Inr (dist_m, vals)))"
  using assms(2-7) sample_count_default[OF assms(1), of ev raster_crs]
  by (simp add: try_tile_def process_tile_def Let_def)

text \<open>
  Claim C10. With \<^verbatim>\<open>num_samples = None\<close> and \<^verbatim>\<open>spacing_m\<close> either \<^verbatim>\<open>None\<close> or not positive:
  the sample count of lines 52-55 is 200 for every tile; for a valid \<^verbatim>\<open>method\<close> the call
  raises no error, tries every candidate tile in order, and returns the profile made of
  the results of the tiles whose iteration succeeded; each of these results has 200
  distances and 200 elevations; and an opened tile whose CRS, transformer and reads succeed
  is sampled at exactly the 200 points \<open>p0 + (p1 - p0) * t\<close>, \<open>t\<close> in
  \<^verbatim>\<open>np.linspace(0, 1, 200)\<close>, its result being the distances and elevations of those points.
\<close>

theorem default_sample_count:
  assumes "spacing_m = None \<or> (\<exists>sp. spacing_m = Some sp \<and> sp \<le> 0)"
  shows "sample_count ev raster_crs p0 p1 spacing_m None = Inr 200 \<and>
         (method = ''nearest'' \<or> method = ''bilinear'' \<longrightarrow>
            (\<exists>profile trace.
               get_elevation_profile ev s e c spacing_m None method = (Inr profile, trace) \<and>
               [t. OpenTile t \<leftarrow> trace] = map tile_id (tiffs_to_check ev s e) \<and>
               concat_result
                 (concat (map (\<lambda>tiff. case try_tile ev s e c spacing_m None method tiff of
                                        Inl err \<Rightarrow> [] | Inr result \<Rightarrow> [result])
                              (tiffs_to_check ev s e))) = Inr profile)) \<and>
         (\<forall>tiff\<in>set (tiffs_to_check ev s e). \<forall>dist_m vals.
            try_tile ev s e c spacing_m None method tiff = Inr (dist_m, vals)
            \<longrightarrow> length dist_m = 200 \<and> length vals = 200) \<and>
         (\<forall>tiff\<in>set (tiffs_to_check ev s e). \<forall>ds rcrs in_crs to_raster raw masks.
            rasterio_open ev (tile_id tiff) = Inr ds \<and>
            (case ds_crs ds of None \<Rightarrow> Inr (wgs84 ev) | Some cid \<Rightarrow> from_user_input ev cid)
              = Inr rcrs \<and>
            from_user_input ev c = Inr in_crs \<and>
            from_crs ev in_crs rcrs = Inr to_raster \<and>
            ds_read ds = Inr raw \<and> ds_read_masks ds = Inr masks
            \<longrightarrow>
            (let xs = map (\<lambda>ti. fst (to_raster s) + (fst (to_raster e) - fst (to_raster s)) * ti)
                          (linspace01 200);
                 ys = map (\<lambda>ti. snd (to_raster s) + (snd (to_raster e) - snd (to_raster s)) * ti)
                          (linspace01 200);
                 band = apply_mask masks (apply_nodata (ds_nodata ds) raw)
             in length xs = 200 \<and> length ys = 200 \<and>
                try_tile ev s e c spacing_m None method tiff =
                  (case sample_raster_at_points band (ds_transform ds) xs ys method of
                     Inl err \<Rightarrow> Inl err
                   | Inr vals \<Rightarrow>
                       (case compute_cumulative_distances ev rcrs xs ys of
                          Inl err \<Rightarrow> Inl err
                        | Inr dist_m \<Rightarrow> Inr (dist_m, vals)))))"
proof -
  let ?tiffs = "tiffs_to_check ev s e"
  let ?st = "tile_loop ev s e c spacing_m None method ?tiffs ([], [])"
  have c1: "sample_count ev raster_crs p0 p1 spacing_m None = Inr 200"
    using assms by (rule sample_count_default)
  have c2: "\<exists>profile trace.
               get_elevation_profile ev s e c spacing_m None method = (Inr profile, trace) \<and>
               [t. OpenTile t \<leftarrow> trace] = map tile_id ?tiffs \<and>
               concat_result
                 (concat (map (\<lambda>tiff. case try_tile ev s e c spacing_m None method tiff of
                                        Inl err \<Rightarrow> [] | Inr result \<Rightarrow> [result])
                              ?tiffs)) = Inr profile"
    if m: "method = ''nearest'' \<or> method = ''bilinear''"
  proof -
    obtain profile where p: "concat_result (fst ?st) = Inr profile"
      using tile_loop_results_total by blast
    have g: "get_elevation_profile ev s e c spacing_m None method = (Inr profile, snd ?st)"
      using get_elevation_profile_valid[OF _ m, of None] p by simp
    have o: "[t. OpenTile t \<leftarrow> snd ?st] = map tile_id ?tiffs"
      unfolding tile_loop_eq using opens_of_trace by simp
    have r: "concat_result
               (concat (map (\<lambda>tiff. case try_tile ev s e c spacing_m None method tiff of
                                      Inl err \<Rightarrow> [] | Inr result \<Rightarrow> [result]) ?tiffs))
             = Inr profile"
      using p by (simp add: tile_loop_eq)
    show ?thesis using g o r by blast
  qed
  have c3: "length dist_m = 200 \<and> length vals = 200"
    if t: "try_tile ev s e c spacing_m None method tiff = Inr (dist_m, vals)"
    for tiff dist_m vals
  proof -
    obtain rc q0 q1 N where "sample_count ev rc q0 q1 spacing_m None = Inr N"
      "length dist_m = nat N" "length vals = nat N"
      using try_tile_shape[OF t] by blast
    moreover have "sample_count ev rc q0 q1 spacing_m None = Inr 200"
      using assms by (rule sample_count_default)
    ultimately show ?thesis by simp
  qed
  have c4: "let xs = map (\<lambda>ti. fst (to_raster s) + (fst (to_raster e) - fst (to_raster s)) * ti)
                          (linspace01 200);
                 ys = map (\<lambda>ti. snd (to_raster s) + (snd (to_raster e) - snd (to_raster s)) * ti)
                          (linspace01 200);
                 band = apply_mask masks (apply_nodata (ds_nodata ds) raw)
             in length xs = 200 \<and> length ys = 200 \<and>
                try_tile ev s e c spacing_m None method tiff =
                  (case sample_raster_at_points band (ds_transform ds) xs ys method of
                     Inl err \<Rightarrow> Inl err
                   | Inr vals \<Rightarrow>
                       (case compute_cumulative_distances ev rcrs xs ys of
                          Inl err \<Rightarrow> Inl err
                        | Inr dist_m \<Rightarrow> Inr (dist_m, vals)))"
    if h: "rasterio_open ev (tile_id tiff) = Inr ds \<and>
            (case ds_crs ds of None \<Rightarrow> Inr (wgs84 ev) | Some cid \<Rightarrow> from_user_input ev cid)
              = Inr rcrs \<and>
            from_user_input ev c = Inr in_crs \<and>
            from_crs ev in_crs rcrs = Inr to_raster \<and>
            ds_read ds = Inr raw \<and> ds_read_masks ds = Inr masks"
    for tiff ds rcrs in_crs to_raster raw masks
  proof -
    have "try_tile ev s e c spacing_m None method tiff =
           (let xs = map (\<lambda>ti. fst (to_raster s) + (fst (to_raster e) - fst (to_raster s)) * ti)
                         (linspace01 200);
                ys = map (\<lambda>ti. snd (to_raster s) + (snd (to_raster e) - snd (to_raster s)) * ti)
                         (linspace01 200);
                band = apply_mask masks (apply_nodata (ds_nodata ds) raw)
            in case sample_raster_at_points band (ds_transform ds) xs ys method of
                 Inl err \<Rightarrow> Inl err
               | Inr vals \<Rightarrow>
                   (case compute_cumulative_distances ev rcrs xs ys of
                      Inl err \<Rightarrow> Inl err
                    | Inr dist_m \<Rightarrow> Inr (dist_m, vals)))"
      using h try_tile_default[OF assms, of ev tiff ds rcrs c in_crs to_raster raw masks s e]
      by blast
    then show ?thesis
      by (simp add: Let_def length_linspace01)
  qed
  show ?thesis
    using c1 c2 c3 c4 by blast
qed

text \<open>The example store, evaluated.\<close>

lemma example_env_fields:
  "rasterio_open example_env t = (if t = (0, 0) then Inr flat_tile else Inl RasterioIOError)"
  "from_user_input example_env c =
     (if c = ''EPSG:25832'' then Inr utm32
      else if c = ''EPSG:4326'' then Inr epsg4326 else Inl CRSError)"
  "wgs84 example_env = epsg4326"
  "from_crs example_env c1 c2 = Inr (\<lambda>p. p)"
  by (simp_all add: example_env_def)

lemma example_tiffs_two_tiles:
  "tiffs_to_check example_env (1 / 2, 1 / 2) (2001 / 2, 1 / 2) =
     [(1 / 2000, 1 / 2000), (2001 / 2000, 1 / 2000), (0, 0), (1, 0)]"
  by (simp add: tiffs_to_check_def example_env_to_25832 py_int_def Let_def upto.simps)

lemma example_tiffs_one_tile:
  "tiffs_to_check example_env (1 / 2, 1 / 2) (3 / 2, 1 / 2) =
     [(1 / 2000, 1 / 2000), (3 / 2000, 1 / 2000), (0, 0)]"
  by (simp add: tiffs_to_check_def example_env_to_25832 py_int_def Let_def upto.simps)

lemma example_tiffs_missing:
  "tiffs_to_check example_env (10001 / 2, 10001 / 2) (10001 / 2, 10001 / 2) =
     [(10001 / 2000, 10001 / 2000), (10001 / 2000, 10001 / 2000), (5, 5)]"
  by (simp add: tiffs_to_check_def example_env_to_25832 py_int_def Let_def upto.simps)

theorem tile_failures_are_skipped_witness:
  "\<exists>profile trace.
     get_elevation_profile example_env (1 / 2, 1 / 2) (2001 / 2, 1 / 2) ''EPSG:25832'' None
       (Some 2) ''nearest'' = (Inr profile, trace) \<and>
     [t. OpenTile t \<leftarrow> trace] = [(0, 0), (1, 0), (0, 0), (1, 0)] \<and>
     PrintError (2001 / 2000, 1 / 2000) RasterioIOError \<in> set trace \<and>
     PrintError (1, 0) RasterioIOError \<in> set trace"
  using tile_failures_are_skipped [of "Some 2" "''nearest''" example_env "(1 / 2, 1 / 2)"
      "(2001 / 2, 1 / 2)" "''EPSG:25832''" None]
  by (auto simp add: example_tiffs_two_tiles tile_id_def py_int_def example_env_fields)

theorem unresolved_input_crs_is_swallowed_witness:
  "get_elevation_profile example_env (1 / 2, 1 / 2) (2001 / 2, 1 / 2) ''bogus'' None
     (Some 2) ''nearest'' =
     (Inr [],
      [OpenTile (0, 0), PrintError (1 / 2000, 1 / 2000) CRSError,
       OpenTile (1, 0), PrintError (2001 / 2000, 1 / 2000) RasterioIOError,
       OpenTile (0, 0), PrintError (0, 0) CRSError,
       OpenTile (1, 0), PrintError (1, 0) RasterioIOError])"
  using unresolved_input_crs_is_swallowed [of "Some 2" "''nearest''" example_env "''bogus''"
      CRSError "(1 / 2, 1 / 2)" "(2001 / 2, 1 / 2)" None]
  by (simp add: example_tiffs_two_tiles tile_id_def py_int_def example_env_fields
      flat_tile_def)

text \<open>
  Claim C6 as stated fails: on the example store the identifier \<open>bogus\<close> does not resolve,
  the tile \<open>(0, 0)\<close> opens, and the call returns the empty profile, having printed the CRS
  error once per candidate tile.
\<close>

theorem unresolved_input_crs_counterexample:
  "from_user_input example_env ''bogus'' = Inl CRSError \<and>
   rasterio_open example_env (0, 0) = Inr flat_tile \<and>
   get_elevation_profile example_env (1 / 2, 1 / 2) (3 / 2, 1 / 2) ''bogus'' None
     (Some 2) ''nearest'' =
     (Inr [],
      [OpenTile (0, 0), PrintError (1 / 2000, 1 / 2000) CRSError,
       OpenTile (0, 0), PrintError (3 / 2000, 1 / 2000) CRSError,
       OpenTile (0, 0), PrintError (0, 0) CRSError])"
  by (simp add: get_elevation_profile_def example_tiffs_one_tile try_tile_def tile_id_def
      py_int_def process_tile_def example_env_fields flat_tile_def Let_def)

theorem validation_errors_witness:
  "get_elevation_profile example_env (1 / 2, 1 / 2) (3 / 2, 1 / 2) ''EPSG:25832'' None
     (Some 1) ''bilinear'' = (Inl (ValueError ''num_samples must be >= 2''), []) \<and>
   get_elevation_profile example_env (1 / 2, 1 / 2) (3 / 2, 1 / 2) ''EPSG:25832'' None
     (Some 2) ''cubic'' = (Inl (ValueError method_message), []) \<and>
   (\<exists>profile. fst (get_elevation_profile example_env (1 / 2, 1 / 2) (3 / 2, 1 / 2)
                     ''EPSG:25832'' None None ''bilinear'') = Inr profile)"
  using validation_errors [of "Some 1" example_env "(1 / 2, 1 / 2)" "(3 / 2, 1 / 2)"
      "''EPSG:25832''" None "''bilinear''"]
    validation_errors [of "Some 2" example_env "(1 / 2, 1 / 2)" "(3 / 2, 1 / 2)"
      "''EPSG:25832''" None "''cubic''"]
    validation_errors [of None example_env "(1 / 2, 1 / 2)" "(3 / 2, 1 / 2)"
      "''EPSG:25832''" None "''bilinear''"]
  by simp

text \<open>
  Claim C9 as stated fails for a request with neither \<^verbatim>\<open>spacing_m\<close> nor \<^verbatim>\<open>num_samples\<close>:
  the call goes on to open tiles and returns a profile (empty here, the tile \<open>(5, 5)\<close> being
  missing) instead of raising.
\<close>

theorem unresolvable_mode_counterexample:
  "get_elevation_profile example_env (10001 / 2, 10001 / 2) (10001 / 2, 10001 / 2)
     ''EPSG:4326'' None None ''bilinear'' =
     (Inr [],
      [OpenTile (5, 5), PrintError (10001 / 2000, 10001 / 2000) RasterioIOError,
       OpenTile (5, 5), PrintError (10001 / 2000, 10001 / 2000) RasterioIOError,
       OpenTile (5, 5), PrintError (5, 5) RasterioIOError])"
  by (simp add: get_elevation_profile_def example_tiffs_missing try_tile_def tile_id_def
      py_int_def example_env_fields Let_def)

text \<open>
  The example tile under the default count: the 200 points from \<open>(1/2, 1/2)\<close> to
  \<open>(3/2, 1/2)\<close> all lie inside the flat tile, so each gets the elevation 100.
\<close>

lemma linspace01_range:
  assumes "2 \<le> N" and "t \<in> set (linspace01 N)"
  shows "0 \<le> t \<and> t \<le> 1"
proof -
  from assms obtain i where i: "i < nat N" "t = real i / real_of_int (N - 1)"
    by (auto simp: linspace01_def)
  have "real i \<le> real_of_int (N - 1)" using i(1) assms(1) by linarith
  then show ?thesis using i(2) assms(1) by (simp add: divide_le_eq_1)
qed

lemma flat_band_bilinear:
  assumes "0 \<le> t" and "t \<le> 1"
  shows "sample_bilinear [[Val 100, Val 100, Val 100], [Val 100, Val 100, Val 100],
                          [Val 100, Val 100, Val 100]] (1 / 2) (1 / 2 + t) = Val 100"
proof -
  have r: "\<lfloor>1 / 2 :: real\<rfloor> = 0" by simp
  have "\<lfloor>1 / 2 + t\<rfloor> = 0 \<or> \<lfloor>1 / 2 + t\<rfloor> = 1"
    using assms by (cases "t < 1 / 2") (auto simp: floor_eq_iff)
  then show ?thesis
  proof
    assume c: "\<lfloor>1 / 2 + t\<rfloor> = 0"
    then have c2: "\<lfloor>t + 1 / 2\<rfloor> = 0" by (simp add: add.commute)
    show ?thesis
      by (simp add: sample_bilinear_def bilinear_inside_def band_h_def band_w_def cell_def
          Let_def r c c2 algebra_simps)
  next
    assume c: "\<lfloor>1 / 2 + t\<rfloor> = 1"
    then have c2: "\<lfloor>t + 1 / 2\<rfloor> = 1" by (simp add: add.commute)
    show ?thesis
      by (simp add: sample_bilinear_def bilinear_inside_def band_h_def band_w_def cell_def
          Let_def r c c2 algebra_simps)
  qed
qed

lemma tile_samples_all_valid:
  "length distance_m = length elevation \<Longrightarrow> \<forall>v\<in>set elevation. \<not> isnan v \<Longrightarrow>
   \<exists>r. tile_samples distance_m elevation = Inr r \<and> length r = length distance_m"
proof (induction distance_m elevation rule: tile_samples.induct)
  case (1 elevation)
  then show ?case by simp
next
  case (2 dm distance_m)
  then show ?case by simp
next
  case (3 dm distance_m el elevation)
  then obtain r where "tile_samples distance_m elevation = Inr r" "length r = length distance_m"
    by auto
  moreover obtain v where "el = Val v" using 3(3) by (cases el) auto
  ultimately show ?case by simp
qed

lemma example_tile_200:
  "\<exists>dist_m. try_tile example_env (1 / 2, 1 / 2) (3 / 2, 1 / 2) ''EPSG:25832'' None None
        ''bilinear'' tiff = Inr (dist_m, replicate 200 (Val 100)) \<and> length dist_m = 200"
  if "tile_id tiff = (0, 0)" for tiff
proof -
  let ?xs = "map (\<lambda>ti. 1 / 2 + (3 / 2 - 1 / 2) * ti) (linspace01 200)"
  let ?ys = "map (\<lambda>ti. 1 / 2 + (1 / 2 - 1 / 2) * ti) (linspace01 200)"
  let ?flat = "[[Val 100, Val 100, Val 100], [Val 100, Val 100, Val 100],
                [Val 100, Val 100, Val 100]]"
  have band: "apply_mask [[255, 255, 255], [255, 255, 255], [255, 255, 255]]
                (apply_nodata None ?flat) = ?flat"
    by (simp add: apply_mask_def apply_nodata_def)
  have "map2 (\<lambda>x y. sample_at ?flat ''bilinear''
                 (frac_row \<lparr>aff_a = 1, aff_b = 0, aff_c = 0, aff_d = 0, aff_e = 1, aff_f = 0\<rparr> x y)
                 (frac_col \<lparr>aff_a = 1, aff_b = 0, aff_c = 0, aff_d = 0, aff_e = 1, aff_f = 0\<rparr> x y))
          ?xs ?ys = map (\<lambda>ti. Val 100) (linspace01 200)"
    using linspace01_range[of 200] flat_band_bilinear
    by (auto simp add: zip_map_map zip_same_conv_map frac_row_def frac_col_def sample_at_def
        comp_def)
  then have vals: "sample_raster_at_points ?flat
                     \<lparr>aff_a = 1, aff_b = 0, aff_c = 0, aff_d = 0, aff_e = 1, aff_f = 0\<rparr>
                     ?xs ?ys ''bilinear'' = Inr (replicate 200 (Val 100))"
    by (simp add: sample_raster_at_points_eq[OF affine_invert_identity] map_replicate_const
        length_linspace01)
  define dist_m where "dist_m = 0 # np_cumsum (map2 hypot (np_diff ?xs) (np_diff ?ys))"
  have d: "compute_cumulative_distances example_env utm32 ?xs ?ys = Inr dist_m"
    "length dist_m = 200"
    by (simp_all add: dist_m_def projected_distances utm32_def np_cumsum_def
        length_cumsum_from length_np_diff length_linspace01)
  have "try_tile example_env (1 / 2, 1 / 2) (3 / 2, 1 / 2) ''EPSG:25832'' None None
        ''bilinear'' tiff = Inr (dist_m, replicate 200 (Val 100))"
    using that vals d(1)
    by (simp add: try_tile_def example_env_fields flat_tile_def process_tile_def
        sample_count_def Let_def band)
  then show ?thesis using d(2) by blast
qed


theorem default_sample_count_witness:
  "sample_count example_env utm32 (1 / 2, 1 / 2) (3 / 2, 1 / 2) None None = Inr 200 \<and>
   (\<exists>profile trace.
      get_elevation_profile example_env (1 / 2, 1 / 2) (3 / 2, 1 / 2) ''EPSG:25832'' None None
        ''bilinear'' = (Inr profile, trace) \<and>
      [t. OpenTile t \<leftarrow> trace] = [(0, 0), (0, 0), (0, 0)] \<and>
      length profile = 600) \<and>
   (\<exists>dist_m. try_tile example_env (1 / 2, 1 / 2) (3 / 2, 1 / 2) ''EPSG:25832'' None None
        ''bilinear'' (0, 0) = Inr (dist_m, replicate 200 (Val 100)) \<and> length dist_m = 200)"
proof -
  let ?attempt = "try_tile example_env (1 / 2, 1 / 2) (3 / 2, 1 / 2) ''EPSG:25832'' None None
                ''bilinear''"
  let ?elev = "replicate 200 (Val 100)"
  note d = default_sample_count [of None example_env utm32 "(1 / 2, 1 / 2)" "(3 / 2, 1 / 2)"
      "''bilinear''" "(1 / 2, 1 / 2)" "(3 / 2, 1 / 2)" "''EPSG:25832''", OF disjI1 [OF refl]]
  have c1: "sample_count example_env utm32 (1 / 2, 1 / 2) (3 / 2, 1 / 2) None None = Inr 200"
    using d by blast
  obtain profile trace where
    g: "get_elevation_profile example_env (1 / 2, 1 / 2) (3 / 2, 1 / 2) ''EPSG:25832'' None
          None ''bilinear'' = (Inr profile, trace)"
    and o: "[t. OpenTile t \<leftarrow> trace] =
            map tile_id (tiffs_to_check example_env (1 / 2, 1 / 2) (3 / 2, 1 / 2))"
    and r: "concat_result
              (concat (map (\<lambda>tiff. case ?attempt tiff of Inl err \<Rightarrow> [] | Inr result \<Rightarrow> [result])
                           (tiffs_to_check example_env (1 / 2, 1 / 2) (3 / 2, 1 / 2))))
            = Inr profile"
    using d by blast
  obtain d1 where t1: "?attempt (1 / 2000, 1 / 2000) = Inr (d1, ?elev)" "length d1 = 200"
    using example_tile_200 [of "(1 / 2000, 1 / 2000)"] by (auto simp: tile_id_def py_int_def)
  obtain d2 where t2: "?attempt (3 / 2000, 1 / 2000) = Inr (d2, ?elev)" "length d2 = 200"
    using example_tile_200 [of "(3 / 2000, 1 / 2000)"] by (auto simp: tile_id_def py_int_def)
  obtain d3 where t3: "?attempt (0, 0) = Inr (d3, ?elev)" "length d3 = 200"
    using example_tile_200 [of "(0, 0)"] by (auto simp: tile_id_def py_int_def)
  obtain h1 where h1: "tile_samples d1 ?elev = Inr h1" "length h1 = 200"
    using tile_samples_all_valid [of d1 ?elev] t1(2) by auto
  obtain h2 where h2: "tile_samples d2 ?elev = Inr h2" "length h2 = 200"
    using tile_samples_all_valid [of d2 ?elev] t2(2) by auto
  obtain h3 where h3: "tile_samples d3 ?elev = Inr h3" "length h3 = 200"
    using tile_samples_all_valid [of d3 ?elev] t3(2) by auto
  have "profile = h1 @ h2 @ h3"
    using r by (simp add: example_tiffs_one_tile t1(1) t2(1) t3(1) h1(1) h2(1) h3(1))
  then have len: "length profile = 600"
    using h1(2) h2(2) h3(2) by simp
  have opens: "[t. OpenTile t \<leftarrow> trace] = [(0, 0), (0, 0), (0, 0)]"
    unfolding o by (simp add: example_tiffs_one_tile tile_id_def py_int_def)
  show ?thesis
    using c1 g opens len t3 by blast
qed

text \<open>
  The whole pipeline on the example store: four samples from \<open>(0, 0)\<close> to \<open>(3/2, 0)\<close>. The
  tile \<open>(0, 0)\<close> is a candidate three times (start, end, sweep), is opened three times, and
  contributes its four samples three times.
\<close>

lemma hypot_0_right: "hypot u 0 = \<bar>u\<bar>"
  by (simp add: hypot_def)

lemma linspace01_4: "linspace01 4 = [0, 1 / 3, 2 / 3, 1]"
  by (simp add: linspace01_def upt_rec[of 0] upt_rec[of 1] upt_rec[of 2] upt_rec[of 3] upt_rec[of "Suc _"] eval_nat_numeral)

lemma example_profile:
  "get_elevation_profile example_env (0, 0) (3 / 2, 0) ''EPSG:25832'' None (Some 4) ''bilinear'' =
     (Inr [(0, 100), (1 / 2, 100), (1, 100), (3 / 2, 100),
           (0, 100), (1 / 2, 100), (1, 100), (3 / 2, 100),
           (0, 100), (1 / 2, 100), (1, 100), (3 / 2, 100)],
      [OpenTile (0, 0), OpenTile (0, 0), OpenTile (0, 0)])"
proof -
  have t: "tiffs_to_check example_env (0, 0) (3 / 2, 0) = [(0, 0), (3 / 2000, 0), (0, 0)]"
    by (simp add: tiffs_to_check_def example_env_to_25832 py_int_def Let_def upto.simps)
  have band: "apply_mask [[255, 255, 255], [255, 255, 255], [255, 255, 255]]
                (apply_nodata None [[Val 100, Val 100, Val 100], [Val 100, Val 100, Val 100],
                                    [Val 100, Val 100, Val 100]]) =
              [[Val 100, Val 100, Val 100], [Val 100, Val 100, Val 100],
               [Val 100, Val 100, Val 100]]"
    by (simp add: apply_mask_def apply_nodata_def)
  have p: "process_tile example_env (0, 0) (3 / 2, 0) ''EPSG:25832'' None (Some 4) ''bilinear''
             flat_tile = Inr ([0, 1 / 2, 1, 3 / 2], [Val 100, Val 100, Val 100, Val 100])"
    by (simp add: process_tile_def example_env_fields flat_tile_def utm32_def sample_count_def
        Let_def linspace01_4 band sample_raster_at_points_eq[OF affine_invert_identity]
        projected_distances sample_at_def sample_bilinear_def bilinear_inside_def band_h_def
        band_w_def cell_def frac_row_def frac_col_def np_diff_def np_cumsum_def hypot_0_right)
  have tt: "try_tile example_env (0, 0) (3 / 2, 0) ''EPSG:25832'' None (Some 4) ''bilinear'' tiff
            = Inr ([0, 1 / 2, 1, 3 / 2], [Val 100, Val 100, Val 100, Val 100])"
    if "tile_id tiff = (0, 0)" for tiff
    using that p by (simp add: try_tile_def example_env_fields)
  show ?thesis
    by (simp add: get_elevation_profile_def t tile_loop_eq tt tile_id_def py_int_def Let_def)
qed

end
